theory Spec2Isabelle
  imports Main "HOL-Library.AList" "HOL-Library.Word"
begin

unbundle bit_operations_syntax

section \<open>Python values used by the backend\<close>

text \<open>
  Byte strings (\<^verbatim>\<open>bytes\<close>) are lists of 8-bit words. Text strings are \<^typ>\<open>string\<close>,
  read as sequences of code points below 256. \<open>lower\<close> is \<^verbatim>\<open>str.lower\<close> on them: the
  letters A to Z and the capital letters U+00C0 to U+00DE (U+00D7, the multiplication
  sign, is no letter) move up by 32, every other code point stays. \<open>upper\<close> is modelled
  on the ASCII letters; the code only compares its result with PNG, SVG and PDF.
\<close>

type_synonym bytes = "8 word list"

definition upper_char :: "char \<Rightarrow> char" where
  "upper_char c =
     (let n = (of_char c :: nat) in if 97 \<le> n \<and> n \<le> 122 then char_of (n - 32) else c)"

definition lower_char :: "char \<Rightarrow> char" where
  "lower_char c =
     (let n = (of_char c :: nat)
      in if (65 \<le> n \<and> n \<le> 90) \<or> (192 \<le> n \<and> n \<le> 222 \<and> n \<noteq> 215) then char_of (n + 32)
         else c)"

definition upper :: "string \<Rightarrow> string" where
  "upper s = map upper_char s"

definition lower :: "string \<Rightarrow> string" where
  "lower s = map lower_char s"

text \<open>
  Exceptions are values: the class of the exception and its message
  (\<^verbatim>\<open>str(e)\<close>). The classes are the ones the backend raises or catches by name;
  \<open>OtherError\<close> stands for every other subclass of \<^verbatim>\<open>Exception\<close>.
\<close>

datatype exn_class =
    DataOverflowError
  | ValueError
  | FileNotFoundError
  | ValidationError
  | ClientError
  | NoCredentialsError
  | AzureError
  | OtherError

datatype exn = Exn exn_class string

fun exn_class_of :: "exn \<Rightarrow> exn_class" where
  "exn_class_of (Exn c m) = c"

fun str_exn :: "exn \<Rightarrow> string" where
  "str_exn (Exn c m) = m"

text \<open>
  The clock: a reading of \<^verbatim>\<open>datetime.utcnow()\<close> is an input, in seconds. Its text form
  (\<^verbatim>\<open>isoformat()\<close>) is not modelled: \<^verbatim>\<open>created_at\<close> and the metadata of an upload hold
  the reading itself.
\<close>

type_synonym timestamp = nat

section \<open>base64 (the standard alphabet, with padding)\<close>

definition b64_alphabet :: string where
  "b64_alphabet = ''ABCDEFGHIJKLMNOPQRSTUVWXYZabcdefghijklmnopqrstuvwxyz0123456789+/''"

definition b64_char :: "nat \<Rightarrow> char" where
  "b64_char n = b64_alphabet ! (n mod 64)"

text \<open>\<^verbatim>\<open>base64.b64encode(file_data).decode('utf-8')\<close>: three bytes become four characters.\<close>

fun b64encode :: "bytes \<Rightarrow> string" where
  "b64encode [] = []"
| "b64encode [a] =
     (let n = unat a * 65536
      in [b64_char (n div 262144), b64_char (n div 4096 mod 64), CHR ''='', CHR ''=''])"
| "b64encode [a, b] =
     (let n = unat a * 65536 + unat b * 256
      in [b64_char (n div 262144), b64_char (n div 4096 mod 64),
          b64_char (n div 64 mod 64), CHR ''=''])"
| "b64encode (a # b # c # rest) =
     (let n = unat a * 65536 + unat b * 256 + unat c
      in [b64_char (n div 262144), b64_char (n div 4096 mod 64),
          b64_char (n div 64 mod 64), b64_char (n mod 64)] @ b64encode rest)"

fun index_of :: "'a \<Rightarrow> 'a list \<Rightarrow> nat option" where
  "index_of x [] = None"
| "index_of x (y # ys) =
     (if x = y then Some 0 else map_option Suc (index_of x ys))"

definition b64_value :: "char \<Rightarrow> nat option" where
  "b64_value c = index_of c b64_alphabet"

text \<open>
  The strict decoder of canonical base64 text, the inverse the preview is read back with:
  groups of four characters, padding only in the last group.
\<close>

fun b64decode :: "string \<Rightarrow> bytes option" where
  "b64decode [] = Some []"
| "b64decode [w, x, y, z] =
     (if y = CHR ''='' \<and> z = CHR ''='' then
        (case (b64_value w, b64_value x) of
           (Some p, Some q) \<Rightarrow>
             (let n = p * 262144 + q * 4096 in Some [of_nat (n div 65536)])
         | _ \<Rightarrow> None)
      else if z = CHR ''='' then
        (case (b64_value w, b64_value x, b64_value y) of
           (Some p, Some q, Some r) \<Rightarrow>
             (let n = p * 262144 + q * 4096 + r * 64
              in Some [of_nat (n div 65536), of_nat (n div 256 mod 256)])
         | _ \<Rightarrow> None)
      else
        (case (b64_value w, b64_value x, b64_value y, b64_value z) of
           (Some p, Some q, Some r, Some s) \<Rightarrow>
             (let n = p * 262144 + q * 4096 + r * 64 + s
              in Some [of_nat (n div 65536), of_nat (n div 256 mod 256), of_nat (n mod 256)])
         | _ \<Rightarrow> None))"
| "b64decode (w # x # y # z # rest) =
     (case (b64_value w, b64_value x, b64_value y, b64_value z, b64decode rest) of
        (Some p, Some q, Some r, Some s, Some bs) \<Rightarrow>
          (let n = p * 262144 + q * 4096 + r * 64 + s
           in Some (of_nat (n div 65536) # of_nat (n div 256 mod 256) # of_nat (n mod 256) # bs))
      | _ \<Rightarrow> None)"
| "b64decode _ = None"

section \<open>The qrcode and imaging library, as the generator calls it\<close>

text \<open>
  The library objects are kept symbolically: a \<open>qrcode\<close> holds the arguments of
  \<^verbatim>\<open>qrcode.QRCode(...)\<close> and the data added to it, an \<open>image\<close> holds the arguments of
  \<^verbatim>\<open>qr.make_image(...)\<close>. What the library computes from them is a parameter:
  \<open>qr_make\<close> is \<^verbatim>\<open>QRCode(...)\<close>, \<^verbatim>\<open>add_data\<close> and \<^verbatim>\<open>make(fit=True)\<close>, which raise
  (\<open>Some e\<close>) or build the symbol (\<open>None\<close>); \<open>img_save\<close> is \<^verbatim>\<open>make_image\<close> and \<^verbatim>\<open>img.save\<close> with its
  \<^verbatim>\<open>format\<close> and \<^verbatim>\<open>optimize\<close> arguments, which raise or give the file's bytes.
\<close>

datatype ec_level = ERROR_CORRECT_L | ERROR_CORRECT_M | ERROR_CORRECT_Q | ERROR_CORRECT_H

record qrcode =
  version :: nat
  error_correction :: ec_level
  box_size :: int
  border :: int
  qr_data :: string

datatype module_drawer = RoundedModuleDrawer | CircleModuleDrawer

datatype image =
    PilImage qrcode string string
  | StyledPilImage qrcode module_drawer string string
  | SvgPathImage qrcode string string

text \<open>The symbol an image was made from.\<close>

fun image_qr :: "image \<Rightarrow> qrcode" where
  "image_qr (PilImage q fc bc) = q"
| "image_qr (StyledPilImage q d fc bc) = q"
| "image_qr (SvgPathImage q fc bc) = q"

record qrlib =
  qr_make :: "qrcode \<Rightarrow> exn option"
  img_save :: "image \<Rightarrow> string option \<Rightarrow> bool \<Rightarrow> exn + bytes"

subsection \<open>When the library has no symbol for the data\<close>

text \<open>
  \<^verbatim>\<open>QRCode(...)\<close> rejects a box size below 1 and a negative border. \<^verbatim>\<open>add_data\<close> encodes
  the string as UTF-8 and cuts it into segments (\<^verbatim>\<open>optimal_data_chunks\<close> with
  \<^verbatim>\<open>minimum=20\<close>): runs of at least 20 digits are numeric, runs of at least 20
  characters of the alphanumeric set are alphanumeric, the rest is bytes; a string of at
  most 20 bytes is one segment of the smallest mode that holds all of it.
  \<^verbatim>\<open>make(fit=True)\<close> from version 1 looks for the smallest version whose bit limit at the
  level holds the segments, and raises when it arrives at version 41: that is, when the
  bits of the segments, counted with the length fields of the versions 27 to 40, exceed
  the bit limit of version 40. The exception is the \<^verbatim>\<open>ValueError\<close> of the version check
  (releases before 7.4 raise \<^verbatim>\<open>DataOverflowError\<close> there); the texts of the messages are
  shortened.
\<close>

definition to_bytestring :: "string \<Rightarrow> nat list" where
  "to_bytestring s =
     concat (map (\<lambda>c. let n = (of_char c :: nat)
                        in if n < 128 then [n] else [192 + n div 64, 128 + n mod 64]) s)"

definition is_digit :: "nat \<Rightarrow> bool" where
  "is_digit b \<longleftrightarrow> 48 \<le> b \<and> b \<le> 57"

definition is_alpha_num :: "nat \<Rightarrow> bool" where
  "is_alpha_num b \<longleftrightarrow>
     is_digit b \<or> (65 \<le> b \<and> b \<le> 90) \<or> b \<in> {32, 36, 37, 42, 43, 45, 46, 47, 58}"

text \<open>
  \<^verbatim>\<open>_optimal_split\<close> for the two shapes of pattern: the whole string (\<^verbatim>\<open>^P+$\<close>, where
  \<^verbatim>\<open>$\<close> also matches before a last newline), and a run of at least \<open>m\<close> bytes
  (\<^verbatim>\<open>P{m,}\<close>), found from the left, the bytes before it collected in \<open>pending\<close>.
\<close>

definition optimal_split_whole :: "(nat \<Rightarrow> bool) \<Rightarrow> nat list \<Rightarrow> (bool \<times> nat list) list" where
  "optimal_split_whole P bs =
     (if bs = [] then []
      else
        let run = takeWhile P bs; rest = dropWhile P bs
        in if run \<noteq> [] \<and> rest = [] then [(True, run)]
           else if run \<noteq> [] \<and> rest = [10] then [(True, run), (False, rest)]
           else [(False, bs)])"

function optimal_split_runs ::
  "(nat \<Rightarrow> bool) \<Rightarrow> nat \<Rightarrow> nat list \<Rightarrow> nat list \<Rightarrow> (bool \<times> nat list) list" where
  "optimal_split_runs P m pending [] = (if pending = [] then [] else [(False, pending)])"
| "optimal_split_runs P m pending (x # xs) =
     (if P x then
        (let run = takeWhile P (x # xs); rest = dropWhile P (x # xs)
         in if m \<le> length run
            then (if pending = [] then [] else [(False, pending)])
                 @ (True, run) # optimal_split_runs P m [] rest
            else optimal_split_runs P m (pending @ run) rest)
      else optimal_split_runs P m (pending @ [x]) xs)"
  by pat_completeness auto
termination
  by (relation "measure (\<lambda>(P, m, pending, bs). length bs)")
     (auto simp: length_dropWhile_le le_imp_less_Suc)

datatype mode = MODE_NUMBER | MODE_ALPHA_NUM | MODE_8BIT_BYTE

definition optimal_split :: "(nat \<Rightarrow> bool) \<Rightarrow> nat \<Rightarrow> bool \<Rightarrow> nat list \<Rightarrow> (bool \<times> nat list) list" where
  "optimal_split P minimum whole bs =
     (if whole then optimal_split_whole P bs else optimal_split_runs P minimum [] bs)"

definition optimal_data_chunks :: "nat list \<Rightarrow> nat \<Rightarrow> (mode \<times> nat list) list" where
  "optimal_data_chunks bs minimum =
     (let whole = (length bs \<le> minimum)
      in concat (map (\<lambda>(is_number, chunk).
           if is_number then [(MODE_NUMBER, chunk)]
           else map (\<lambda>(is_alpha, sub_chunk).
                  (if is_alpha then MODE_ALPHA_NUM else MODE_8BIT_BYTE, sub_chunk))
                  (optimal_split is_alpha_num minimum whole chunk))
           (optimal_split is_digit minimum whole bs)))"

text \<open>
  The bits \<^verbatim>\<open>QRData.write\<close> puts for a segment of \<open>n\<close> bytes, the length fields of the
  versions 27 to 40 (\<^verbatim>\<open>MODE_SIZE_LARGE\<close>), and the last column of \<^verbatim>\<open>BIT_LIMIT_TABLE\<close>:
  eight times the data codewords of version 40 (2956, 2334, 1666 and 1276).
\<close>

fun data_bits :: "mode \<Rightarrow> nat \<Rightarrow> nat" where
  "data_bits MODE_NUMBER n = 10 * (n div 3) + (if n mod 3 = 0 then 0 else if n mod 3 = 1 then 4 else 7)"
| "data_bits MODE_ALPHA_NUM n = 11 * (n div 2) + 6 * (n mod 2)"
| "data_bits MODE_8BIT_BYTE n = 8 * n"

fun MODE_SIZE_LARGE :: "mode \<Rightarrow> nat" where
  "MODE_SIZE_LARGE MODE_NUMBER = 14"
| "MODE_SIZE_LARGE MODE_ALPHA_NUM = 13"
| "MODE_SIZE_LARGE MODE_8BIT_BYTE = 16"

definition needed_bits :: "(mode \<times> nat list) list \<Rightarrow> nat" where
  "needed_bits data_list =
     sum_list (map (\<lambda>(m, chunk). 4 + MODE_SIZE_LARGE m + data_bits m (length chunk)) data_list)"

fun BIT_LIMIT_40 :: "ec_level \<Rightarrow> nat" where
  "BIT_LIMIT_40 ERROR_CORRECT_L = 23648"
| "BIT_LIMIT_40 ERROR_CORRECT_M = 18672"
| "BIT_LIMIT_40 ERROR_CORRECT_Q = 13328"
| "BIT_LIMIT_40 ERROR_CORRECT_H = 10208"


definition qrcode_make :: "qrcode \<Rightarrow> exn option" where
  "qrcode_make q =
     (if box_size q \<le> 0 then Some (Exn ValueError ''Invalid box size'')
      else if border q < 0 then Some (Exn ValueError ''Invalid border value'')
      else if BIT_LIMIT_40 (error_correction q)
                < needed_bits (optimal_data_chunks (to_bytestring (qr_data q)) 20)
        then Some (Exn ValueError ''Invalid version (was 41, expected 1 to 40)'')
      else None)"

text \<open>
  Data of bytes outside the alphanumeric set, lower-case ASCII letters say, fits exactly
  up to the byte capacity of version 40: 2953, 2331, 1663 and 1273 bytes.
\<close>

fun byte_capacity :: "ec_level \<Rightarrow> nat" where
  "byte_capacity ERROR_CORRECT_L = 2953"
| "byte_capacity ERROR_CORRECT_M = 2331"
| "byte_capacity ERROR_CORRECT_Q = 1663"
| "byte_capacity ERROR_CORRECT_H = 1273"

section \<open>services/qr\_generator.py\<close>

text \<open>\<^verbatim>\<open>self.error_correction_levels\<close>, the dictionary built in \<^verbatim>\<open>__init__\<close>.\<close>

definition error_correction_levels :: "string \<Rightarrow> ec_level option" where
  "error_correction_levels =
     [''L'' \<mapsto> ERROR_CORRECT_L, ''M'' \<mapsto> ERROR_CORRECT_M,
      ''Q'' \<mapsto> ERROR_CORRECT_Q, ''H'' \<mapsto> ERROR_CORRECT_H]"

definition generate_png :: "qrlib \<Rightarrow> qrcode \<Rightarrow> string \<Rightarrow> string \<Rightarrow> string option \<Rightarrow> exn + bytes" where
  "generate_png lib qr fill_color back_color style =
     (let img =
        (if style = Some ''rounded'' then StyledPilImage qr RoundedModuleDrawer fill_color back_color
         else if style = Some ''circle'' then StyledPilImage qr CircleModuleDrawer fill_color back_color
         else PilImage qr fill_color back_color)
      in img_save lib img (Some ''PNG'') True)"

definition generate_svg :: "qrlib \<Rightarrow> qrcode \<Rightarrow> string \<Rightarrow> string \<Rightarrow> exn + bytes" where
  "generate_svg lib qr fill_color back_color =
     img_save lib (SvgPathImage qr fill_color back_color) None False"

definition generate_pdf :: "qrlib \<Rightarrow> qrcode \<Rightarrow> string \<Rightarrow> string \<Rightarrow> exn + bytes" where
  "generate_pdf lib qr fill_color back_color =
     img_save lib (PilImage qr fill_color back_color) (Some ''PDF'') True"

text \<open>\<^verbatim>\<open>_generate_qr_sync\<close>: build the symbol, then dispatch on the upper-cased format.\<close>

definition generate_qr_sync ::
  "qrlib \<Rightarrow> string \<Rightarrow> string \<Rightarrow> int \<Rightarrow> int \<Rightarrow> string \<Rightarrow> string \<Rightarrow> string \<Rightarrow> string option
     \<Rightarrow> exn + bytes" where
  "generate_qr_sync lib data_arg format_arg size_arg border_arg error_correction_arg fill_color
       back_color style =
     (let qr = \<lparr>version = 1,
                 error_correction =
                   (case error_correction_levels error_correction_arg of
                      Some l \<Rightarrow> l | None \<Rightarrow> ERROR_CORRECT_M),
                 box_size = size_arg, border = border_arg, qr_data = data_arg\<rparr>
      in case qr_make lib qr of
           Some e \<Rightarrow> Inl e
         | None \<Rightarrow>
             (if upper format_arg = ''SVG'' then generate_svg lib qr fill_color back_color
              else if upper format_arg = ''PDF'' then generate_pdf lib qr fill_color back_color
              else generate_png lib qr fill_color back_color style))"

text \<open>The dictionary \<^verbatim>\<open>generate_qr_code\<close> returns and caches.\<close>

record qr_result =
  qr_id :: string
  data :: string
  format :: string
  qr_size :: int
  file_data :: bytes
  base64_data :: string
  created_at :: timestamp
  file_size :: nat

text \<open>
  \<^verbatim>\<open>self.cache\<close>, a dict in insertion order: an association list with one entry per
  key. \<^verbatim>\<open>self.cache[qr_id] = result\<close> is \<^const>\<open>AList.update\<close>.
\<close>

type_synonym cache = "(string \<times> qr_result) list"

text \<open>
  \<^verbatim>\<open>generate_qr_code\<close>. The identifier \<^verbatim>\<open>str(uuid.uuid4())\<close> and the clock reading are
  inputs. The result is the returned dictionary or the exception raised again by the
  handler, together with the cache afterwards.
\<close>

definition generate_qr_code ::
  "qrlib \<Rightarrow> string \<Rightarrow> timestamp \<Rightarrow> cache \<Rightarrow> string \<Rightarrow> string \<Rightarrow> int \<Rightarrow> int \<Rightarrow> string \<Rightarrow> string
     \<Rightarrow> string \<Rightarrow> string option \<Rightarrow> (exn + qr_result) \<times> cache" where
  "generate_qr_code lib new_id now c data_arg format_arg size_arg border_arg error_correction_arg
       fill_color back_color style =
     (case generate_qr_sync lib data_arg format_arg size_arg border_arg error_correction_arg
             fill_color back_color style of
        Inl e \<Rightarrow> (Inl e, c)
      | Inr fd \<Rightarrow>
          (let result = \<lparr>qr_id = new_id, data = data_arg, format = format_arg, qr_size = size_arg,
                         file_data = fd, base64_data = b64encode fd, created_at = now,
                         file_size = length fd\<rparr>
           in (Inr result, AList.update new_id result c)))"

definition content_types :: "string \<Rightarrow> string option" where
  "content_types =
     [''PNG'' \<mapsto> ''image/png'', ''SVG'' \<mapsto> ''image/svg+xml'', ''PDF'' \<mapsto> ''application/pdf'']"

definition get_qr_code :: "cache \<Rightarrow> string \<Rightarrow> exn + (bytes \<times> string)" where
  "get_qr_code c i =
     (case map_of c i of
        None \<Rightarrow> Inl (Exn FileNotFoundError (''QR code '' @ i @ '' not found''))
      | Some result \<Rightarrow>
          Inr (file_data result,
               (case content_types (upper (format result)) of
                  Some t \<Rightarrow> t | None \<Rightarrow> ''image/png'')))"

text \<open>
  \<^verbatim>\<open>get_cache_stats\<close>: the two integer statistics. (\<^verbatim>\<open>average_size\<close> is their
  floating-point quotient and is not part of the model.)
\<close>

record cache_stats =
  cached_items :: nat
  total_cache_size :: nat

definition get_cache_stats :: "cache \<Rightarrow> cache_stats" where
  "get_cache_stats c =
     \<lparr>cached_items = length c,
      total_cache_size = sum_list (map (\<lambda>item. length (file_data (snd item))) c)\<rparr>"

definition clear_cache :: "cache \<Rightarrow> cache" where
  "clear_cache c = []"

section \<open>services/storage\_manager.py\<close>

text \<open>
  The manager's configuration. The two client objects are not part of the state: every
  request made through them is a \<open>cloud_call\<close>, a record of the library call with its
  arguments, and the answer of the provider (an exception or a string: the presigned
  URL, the SAS token) is a parameter \<open>world\<close>. The calls made so far are threaded
  through the uploads as a list, oldest first.
\<close>

record storage_manager =
  aws_bucket :: string
  azure_container :: string
  aws_region :: string
  azure_account :: "string option"
  aws_enabled :: bool
  azure_enabled :: bool

datatype cloud_call =
    PutObject string string bytes string timestamp string
      \<comment> \<open>Bucket, Key, Body, ContentType, Metadata generated\_at and file\_format\<close>
  | GeneratePresignedUrl string string string nat
      \<comment> \<open>ClientMethod, Params Bucket and Key, ExpiresIn\<close>
  | UploadBlob string string bytes string timestamp string bool
      \<comment> \<open>container, blob, data, content\_type, metadata generated\_at and file\_format, overwrite\<close>
  | GenerateBlobSas "string option" string string "string option" "string option" "string list"
      timestamp
      \<comment> \<open>account\_name, container\_name, blob\_name, account\_key, user\_delegation\_key,
          the permissions set to True, expiry\<close>

type_synonym world = "cloud_call \<Rightarrow> exn + string"

definition get_content_type :: "string \<Rightarrow> string" where
  "get_content_type file_format =
     (case [''png'' \<mapsto> ''image/png'', ''svg'' \<mapsto> ''image/svg+xml'', ''pdf'' \<mapsto> ''application/pdf'']
             (lower file_format) of
        Some t \<Rightarrow> t
      | None \<Rightarrow> ''application/octet-stream'')"

text \<open>
  An \<^verbatim>\<open>except C as e: ... return None\<close> clause: an exception of class \<open>C\<close> becomes the
  value \<^verbatim>\<open>None\<close>, any other exception leaves the function.
\<close>

definition except_return_None :: "exn_class \<Rightarrow> exn \<Rightarrow> exn + string option" where
  "except_return_None cls e = (if exn_class_of e = cls then Inr None else Inl e)"

definition object_key :: "string \<Rightarrow> string \<Rightarrow> string" where
  "object_key file_id file_format = ''qr-codes/'' @ file_id @ ''.'' @ lower file_format"

definition upload_to_aws ::
  "world \<Rightarrow> storage_manager \<Rightarrow> timestamp \<Rightarrow> string \<Rightarrow> bytes \<Rightarrow> string \<Rightarrow> cloud_call list
     \<Rightarrow> (exn + string option) \<times> cloud_call list" where
  "upload_to_aws w sm now file_id fd file_format calls =
     (if \<not> aws_enabled sm then (Inr None, calls)
      else
        let key = object_key file_id file_format;
            content_type = get_content_type file_format;
            put = PutObject (aws_bucket sm) key fd content_type now file_format
        in case w put of
             Inl e \<Rightarrow> (except_return_None ClientError e, calls @ [put])
           | Inr _ \<Rightarrow>
               (let presign = GeneratePresignedUrl ''get_object'' (aws_bucket sm) key 3600
                in case w presign of
                     Inl e \<Rightarrow> (except_return_None ClientError e, calls @ [put, presign])
                   | Inr url \<Rightarrow> (Inr (Some url), calls @ [put, presign])))"

text \<open>\<^verbatim>\<open>f"{self.azure_account}"\<close> of an account that is \<^verbatim>\<open>None\<close>.\<close>

definition str_account :: "string option \<Rightarrow> string" where
  "str_account a = (case a of None \<Rightarrow> ''None'' | Some s \<Rightarrow> s)"

text \<open>
  \<^verbatim>\<open>generate_blob_sas\<close> of azure.storage.blob computes the token locally, signed with the
  account key or with the user delegation key; given neither, it raises a
  \<^verbatim>\<open>ValueError\<close>. The signature of a call that has a key is the answer of \<open>world\<close>.
\<close>

fun generate_blob_sas :: "world \<Rightarrow> cloud_call \<Rightarrow> exn + string" where
  "generate_blob_sas w (GenerateBlobSas a c b None None ps ex) =
     Inl (Exn ValueError ''Either user_delegation_key or account_key must be provided.'')"
| "generate_blob_sas w call = w call"

text \<open>
  \<^verbatim>\<open>upload_to_azure\<close> reads the clock twice: for the metadata (\<open>now\<close>) and for the
  expiry of the SAS token (\<open>now_sas\<close>), which is one hour later. It passes
  \<^verbatim>\<open>generate_blob_sas\<close> the account name, the container, the blob name, the permission
  and the expiry, and no key.
\<close>

definition upload_to_azure ::
  "world \<Rightarrow> storage_manager \<Rightarrow> timestamp \<Rightarrow> timestamp \<Rightarrow> string \<Rightarrow> bytes \<Rightarrow> string
     \<Rightarrow> cloud_call list \<Rightarrow> (exn + string option) \<times> cloud_call list" where
  "upload_to_azure w sm now now_sas file_id fd file_format calls =
     (if \<not> azure_enabled sm then (Inr None, calls)
      else
        let blob_name = object_key file_id file_format;
            content_type = get_content_type file_format;
            up = UploadBlob (azure_container sm) blob_name fd content_type now file_format True
        in case w up of
             Inl e \<Rightarrow> (except_return_None AzureError e, calls @ [up])
           | Inr _ \<Rightarrow>
               (let sas = GenerateBlobSas (azure_account sm) (azure_container sm) blob_name
                            None None [''read''] (now_sas + 3600)
                in case generate_blob_sas w sas of
                     Inl e \<Rightarrow> (except_return_None AzureError e, calls @ [up, sas])
                   | Inr sas_token \<Rightarrow>
                       (Inr (Some (''https://'' @ str_account (azure_account sm)
                                   @ ''.blob.core.windows.net/'' @ azure_container sm @ ''/''
                                   @ blob_name @ ''?'' @ sas_token)),
                        calls @ [up, sas])))"

text \<open>Reading a call: the object it names, and the provider it goes to.\<close>

fun call_key :: "cloud_call \<Rightarrow> string" where
  "call_key (PutObject b k body ct t f) = k"
| "call_key (GeneratePresignedUrl m b k ex) = k"
| "call_key (UploadBlob c b body ct t f ov) = b"
| "call_key (GenerateBlobSas a c b ak udk ps ex) = b"

fun on_aws :: "cloud_call \<Rightarrow> bool" where
  "on_aws (PutObject b k body ct t f) = True"
| "on_aws (GeneratePresignedUrl m b k ex) = True"
| "on_aws (UploadBlob c b body ct t f ov) = False"
| "on_aws (GenerateBlobSas a c b ak udk ps ex) = False"

section \<open>main.py\<close>

text \<open>
  \<^verbatim>\<open>upload_to_storage\<close> returns nothing; what it reports is the line it logs: the two
  URLs, or the message of the exception its handler caught. (The Prometheus counters
  and timers are left out.)
\<close>

datatype upload_report = Uploaded "string option" "string option" | UploadFailed string

definition upload_to_storage ::
  "world \<Rightarrow> storage_manager \<Rightarrow> timestamp \<Rightarrow> timestamp \<Rightarrow> timestamp \<Rightarrow> string \<Rightarrow> bytes \<Rightarrow> string
     \<Rightarrow> cloud_call list \<Rightarrow> upload_report \<times> cloud_call list" where
  "upload_to_storage w sm now_aws now_azure now_sas i fd file_format calls =
     (case upload_to_aws w sm now_aws i fd file_format calls of
        (Inl e, calls1) \<Rightarrow> (UploadFailed (str_exn e), calls1)
      | (Inr aws_res, calls1) \<Rightarrow>
          (case upload_to_azure w sm now_azure now_sas i fd file_format calls1 of
             (Inl e, calls2) \<Rightarrow> (UploadFailed (str_exn e), calls2)
           | (Inr azure_res, calls2) \<Rightarrow> (Uploaded aws_res azure_res, calls2)))"

text \<open>
  The request and response models. \<^verbatim>\<open>QRCodeRequest\<close> carries the constraints of its
  \<^verbatim>\<open>Field\<close> declarations. \<^verbatim>\<open>QRCodeResponse\<close> declares \<^verbatim>\<open>qr_code_base64: str\<close> with no
  default, as it does \<^verbatim>\<open>id\<close>, \<^verbatim>\<open>data\<close>, \<^verbatim>\<open>format\<close>, \<^verbatim>\<open>size\<close>, \<^verbatim>\<open>download_url\<close> and
  \<^verbatim>\<open>created_at\<close>: constructing the model without one of them raises a validation
  error. The constructor takes \<^verbatim>\<open>qr_code_base64\<close> as an option because one call leaves
  the keyword out; \<^verbatim>\<open>aws_url\<close> and \<^verbatim>\<open>azure_url\<close> default to \<^verbatim>\<open>None\<close> and no call sets them.
\<close>

record qr_code_request =
  req_data :: string
  req_format :: string
  req_size :: int
  req_border :: int
  req_error_correction :: string
  req_fill_color :: string
  req_back_color :: string

definition QRCodeRequest_valid :: "qr_code_request \<Rightarrow> bool" where
  "QRCodeRequest_valid r \<longleftrightarrow>
     1 \<le> length (req_data r) \<and> length (req_data r) \<le> 4296 \<and>
     1 \<le> req_size r \<and> req_size r \<le> 40 \<and> 0 \<le> req_border r \<and> req_border r \<le> 20"

record qr_code_response =
  resp_id :: string
  resp_data :: string
  resp_format :: string
  resp_size :: int
  download_url :: string
  qr_code_base64 :: string
  aws_url :: "string option"
  azure_url :: "string option"
  resp_created_at :: timestamp

definition QRCodeResponse ::
  "string \<Rightarrow> string \<Rightarrow> string \<Rightarrow> int \<Rightarrow> string \<Rightarrow> string option \<Rightarrow> timestamp
     \<Rightarrow> exn + qr_code_response" where
  "QRCodeResponse i d f s url b64 created =
     (case b64 of
        None \<Rightarrow> Inl (Exn ValidationError ''qr_code_base64: field required'')
      | Some b \<Rightarrow>
          Inr \<lparr>resp_id = i, resp_data = d, resp_format = f, resp_size = s, download_url = url,
               qr_code_base64 = b, aws_url = None, azure_url = None, resp_created_at = created\<rparr>)"

datatype http_exception = HTTPException nat string

text \<open>A task given to \<^verbatim>\<open>background_tasks.add_task(upload_to_storage, ...)\<close>: its arguments.\<close>

type_synonym upload_task = "string \<times> bytes \<times> string"

text \<open>
  The endpoint \<^verbatim>\<open>generate_qr_code\<close> of main.py (named \<open>post_qr_generate\<close> after its
  route, the generator's method has the name already). It is called with a request
  that passed validation.
\<close>

definition post_qr_generate ::
  "qrlib \<Rightarrow> string \<Rightarrow> timestamp \<Rightarrow> cache \<Rightarrow> qr_code_request
     \<Rightarrow> (http_exception + qr_code_response) \<times> cache \<times> upload_task list" where
  "post_qr_generate lib new_id now c request =
     (case generate_qr_code lib new_id now c (req_data request) (req_format request)
             (req_size request) (req_border request) (req_error_correction request)
             (req_fill_color request) (req_back_color request) None of
        (Inl e, c') \<Rightarrow>
          (Inl (HTTPException 500 (''QR code generation failed: '' @ str_exn e)), c', [])
      | (Inr qr_result, c') \<Rightarrow>
          (let tasks = [(qr_id qr_result, file_data qr_result, lower (req_format request))]
           in case QRCodeResponse (qr_id qr_result) (req_data request) (req_format request)
                     (req_size request) (''/qr/download/'' @ qr_id qr_result)
                     (Some (base64_data qr_result)) (created_at qr_result) of
                Inl e \<Rightarrow>
                  (Inl (HTTPException 500 (''QR code generation failed: '' @ str_exn e)), c', tasks)
              | Inr response \<Rightarrow> (Inr response, c', tasks)))"

record batch_qr_request =
  batch_items :: "string list"
  batch_format :: string
  batch_size :: int

text \<open>
  The loop of \<^verbatim>\<open>generate_batch_qr_codes\<close> over \<^verbatim>\<open>request.items\<close>. The \<open>k\<close>-th call of
  \<^verbatim>\<open>uuid.uuid4()\<close> and of the clock are \<open>uuid4 k\<close> and \<open>utcnow k\<close>. The generator is
  called with the item, the format and the size, every other argument at its default.
\<close>

fun batch_loop ::
  "qrlib \<Rightarrow> (nat \<Rightarrow> string) \<Rightarrow> (nat \<Rightarrow> timestamp) \<Rightarrow> string \<Rightarrow> int \<Rightarrow> string list \<Rightarrow> nat
     \<Rightarrow> qr_code_response list \<Rightarrow> cache \<Rightarrow> upload_task list
     \<Rightarrow> (exn + qr_code_response list) \<times> cache \<times> upload_task list" where
  "batch_loop lib uuid4 utcnow f s [] k results c tasks = (Inr results, c, tasks)"
| "batch_loop lib uuid4 utcnow f s (item # rest) k results c tasks =
     (case generate_qr_code lib (uuid4 k) (utcnow k) c item f s 4 ''M'' ''black'' ''white'' None of
        (Inl e, c') \<Rightarrow> (Inl e, c', tasks)
      | (Inr qr_result, c') \<Rightarrow>
          (case QRCodeResponse (qr_id qr_result) item f s (''/qr/download/'' @ qr_id qr_result)
                  None (created_at qr_result) of
             Inl e \<Rightarrow> (Inl e, c', tasks)
           | Inr response \<Rightarrow>
               batch_loop lib uuid4 utcnow f s rest (Suc k) (results @ [response]) c'
                 (tasks @ [(qr_id qr_result, file_data qr_result, lower f)])))"

definition generate_batch_qr_codes ::
  "qrlib \<Rightarrow> (nat \<Rightarrow> string) \<Rightarrow> (nat \<Rightarrow> timestamp) \<Rightarrow> cache \<Rightarrow> batch_qr_request
     \<Rightarrow> (http_exception + qr_code_response list) \<times> cache \<times> upload_task list" where
  "generate_batch_qr_codes lib uuid4 utcnow c request =
     (if length (batch_items request) > 100
      then (Inl (HTTPException 400 ''Batch size cannot exceed 100 items''), c, [])
      else
        case batch_loop lib uuid4 utcnow (batch_format request) (batch_size request)
               (batch_items request) 0 [] c [] of
          (Inl e, c', tasks) \<Rightarrow>
            (Inl (HTTPException 500 (''Batch QR code generation failed: '' @ str_exn e)), c', tasks)
        | (Inr results, c', tasks) \<Rightarrow> (Inr results, c', tasks))"

section \<open>A sample library and a sample provider\<close>

text \<open>
  Concrete inputs for evaluating the model. The sample library is the fit of the
  qrcode library with a renderer that saves the signature of the format followed by
  the bytes of the data.
\<close>

definition sample_signature :: "string option \<Rightarrow> bytes" where
  "sample_signature fmt =
     (if fmt = Some ''PNG'' then [0x89, 0x50, 0x4E, 0x47]
      else if fmt = Some ''PDF'' then [0x25, 0x50, 0x44, 0x46]
      else [0x3C, 0x73, 0x76, 0x67])"

definition sample_qrlib :: qrlib where
  "sample_qrlib =
     \<lparr>qr_make = qrcode_make,
      img_save = (\<lambda>img fmt optimize.
        Inr (sample_signature fmt @ map (\<lambda>ch. of_nat (of_char ch)) (qr_data (image_qr img))))\<rparr>"

text \<open>
  The sample provider stores every object, answers a request for a presigned URL with
  a URL and signs a SAS that comes with a key; \<open>aws_down\<close> is the provider whose
  endpoint cannot be reached (botocore's \<^verbatim>\<open>EndpointConnectionError\<close>, which is not a
  \<^verbatim>\<open>ClientError\<close>).
\<close>

fun sample_world :: world where
  "sample_world (PutObject b k body ct t f) = Inr []"
| "sample_world (GeneratePresignedUrl m b k ex) = Inr (''https://'' @ b @ ''.s3.amazonaws.com/'' @ k)"
| "sample_world (UploadBlob c b body ct t f ov) = Inr []"
| "sample_world (GenerateBlobSas a c b ak udk ps ex) = Inr ''sp=r''"

definition aws_down :: world where
  "aws_down call =
     (case call of
        PutObject b k body ct t f \<Rightarrow> Inl (Exn OtherError ''Could not connect to the endpoint URL'')
      | _ \<Rightarrow> sample_world call)"

definition sample_manager :: storage_manager where
  "sample_manager =
     \<lparr>aws_bucket = ''qr-codes-bucket'', azure_container = ''qr-codes'', aws_region = ''us-east-1'',
      azure_account = Some ''acct'', aws_enabled = True, azure_enabled = True\<rparr>"

text \<open>The sample identifiers and clock readings of a batch.\<close>

definition sample_uuid4 :: "nat \<Rightarrow> string" where
  "sample_uuid4 k = ''id-'' @ replicate (Suc k) CHR ''x''"

definition sample_utcnow :: "nat \<Rightarrow> timestamp" where
  "sample_utcnow k = 1000 + k"

section \<open>Evaluation of the samples\<close>

lemma upper_PNG: "upper ''PNG'' = ''PNG''"
  by code_simp

lemma upper_GIF: "upper ''GIF'' = ''GIF''"
  by code_simp

lemma sample_sync_png:
  "generate_qr_sync sample_qrlib ''a'' ''PNG'' 10 4 ''M'' ''black'' ''white'' None
     = Inr [137, 80, 78, 71, 97]"
  by code_simp

lemma sample_sync_gif:
  "generate_qr_sync sample_qrlib ''a'' ''GIF'' 10 4 ''M'' ''black'' ''white'' None
     = Inr [137, 80, 78, 71, 97]"
  by code_simp

lemma sample_sync_level_X:
  "generate_qr_sync sample_qrlib ''a'' ''PNG'' 10 4 ''X'' ''black'' ''white'' None
     = Inr [137, 80, 78, 71, 97]"
  by code_simp

lemma sample_sync_box_size_0:
  "generate_qr_sync sample_qrlib ''a'' ''PNG'' 0 4 ''M'' ''black'' ''white'' None
     = Inl (Exn ValueError ''Invalid box size'')"
  by code_simp

text \<open>\<open>lower\<close> at the letters, at the other ASCII characters of a key, and above ASCII.\<close>

lemma lower_PNG: "lower ''PNG'' = ''png''"
  by code_simp

lemma lower_png: "lower ''png'' = ''png''"
  by code_simp

lemma lower_letters:
  "lower ''ABCDEFGHIJKLMNOPQRSTUVWXYZ'' = ''abcdefghijklmnopqrstuvwxyz''"
  "lower ''abcdefghijklmnopqrstuvwxyz0123456789 ./-_''
     = ''abcdefghijklmnopqrstuvwxyz0123456789 ./-_''"
  by code_simp+

lemma lower_latin1:
  "lower [CHR 0xC9] = [CHR 0xE9]" "lower [CHR 0xC0] = [CHR 0xE0]" "lower [CHR 0xDE] = [CHR 0xFE]"
  "lower [CHR 0xD7] = [CHR 0xD7]" "lower [CHR 0xDF] = [CHR 0xDF]" "lower [CHR 0xBF] = [CHR 0xBF]"
  by code_simp+

section \<open>Decoding base64 gives the bytes back\<close>

lemma index_of_nth:
  "distinct xs \<Longrightarrow> n < length xs \<Longrightarrow> index_of (xs ! n) xs = Some n"
proof (induction xs arbitrary: n)
  case Nil
  then show ?case by simp
next
  case (Cons x xs)
  show ?case
  proof (cases n)
    case 0
    then show ?thesis by simp
  next
    case (Suc m)
    with Cons.prems have "m < length xs" and "xs ! m \<noteq> x" and "distinct xs"
      by auto
    with Cons.IH [of m] Suc show ?thesis by simp
  qed
qed

lemma b64_alphabet_distinct: "distinct b64_alphabet"
  by (simp add: b64_alphabet_def)

lemma b64_alphabet_length: "length b64_alphabet = 64"
  by (simp add: b64_alphabet_def)

lemma b64_alphabet_no_pad: "CHR ''='' \<notin> set b64_alphabet"
  by (simp add: b64_alphabet_def)

lemma b64_value_char: "b64_value (b64_char n) = Some (n mod 64)"
  unfolding b64_value_def b64_char_def
  by (rule index_of_nth) (simp_all add: b64_alphabet_distinct b64_alphabet_length)

lemma b64_char_not_pad: "b64_char n \<noteq> CHR ''=''"
proof -
  have "b64_char n \<in> set b64_alphabet"
    unfolding b64_char_def by (rule nth_mem) (simp add: b64_alphabet_length)
  with b64_alphabet_no_pad show ?thesis by metis
qed


lemma sextets_recombine:
  fixes n :: nat
  assumes "n < 16777216"
  shows "(n div 262144) mod 64 * 262144 + n div 4096 mod 64 * 4096 + n div 64 mod 64 * 64 + n mod 64 = n"
proof -
  define x1 where "x1 = n div 64"
  define x2 where "x2 = x1 div 64"
  define x3 where "x3 = x2 div 64"
  define r0 where "r0 = n mod 64"
  define r1 where "r1 = x1 mod 64"
  define r2 where "r2 = x2 mod 64"
  have e2: "n div 4096 = x2"
    using div_mult2_eq [of n 64 64] by (simp add: x1_def x2_def)
  have e3: "n div 262144 = x3"
    using div_mult2_eq [of n 4096 64] by (simp add: e2 x3_def)
  have s0: "n = x1 * 64 + r0"
    by (simp add: x1_def r0_def)
  have s1: "x1 = x2 * 64 + r1"
    by (simp add: x2_def r1_def)
  have s2: "x2 = x3 * 64 + r2"
    by (simp add: x3_def r2_def)
  have "x3 < 64"
    using assms s0 s1 s2 by linarith
  then have "x3 mod 64 = x3"
    by simp
  moreover have "x3 * 262144 + r2 * 4096 + r1 * 64 + r0 = n"
    using s0 s1 s2 by linarith
  ultimately show ?thesis
    by (simp add: e2 e3 x1_def r0_def r1_def r2_def)
qed

lemma three_bytes_bound:
  fixes a b c :: nat
  assumes "a < 256" "b < 256" "c < 256"
  shows "a * 65536 + b * 256 + c < 16777216"
  using assms by linarith

lemma bytes_of_three:
  fixes a b c :: nat
  assumes "b < 256" "c < 256"
  shows "(a * 65536 + b * 256 + c) div 65536 = a"
    and "(a * 65536 + b * 256 + c) div 256 mod 256 = b"
    and "(a * 65536 + b * 256 + c) mod 256 = c"
proof -
  have r: "b * 256 + c < 65536"
    using assms by linarith
  have "(a * 65536 + (b * 256 + c)) div 65536 = a"
    using r by simp
  then show "(a * 65536 + b * 256 + c) div 65536 = a"
    by (simp add: add.assoc)
  have eq: "a * 65536 + b * 256 + c = (a * 256 + b) * 256 + c"
    by simp
  have dv: "(k * 256 + c) div 256 = k" and md: "(k * 256 + c) mod 256 = c" for k
    using assms by simp_all
  have mb: "(k * 256 + b) mod 256 = b" for k
    using assms by simp
  show "(a * 65536 + b * 256 + c) div 256 mod 256 = b"
    unfolding eq dv by (rule mb)
  show "(a * 65536 + b * 256 + c) mod 256 = c"
    unfolding eq by (rule md)
qed


lemma unat_byte_less: "unat (a :: 8 word) < 256"
  using unsigned_less [of a, where ?'a = nat] by simp

lemma b64decode_group:
  fixes a b c :: "8 word"
  defines "n \<equiv> unat a * 65536 + unat b * 256 + unat c"
  assumes rest: "b64decode rest = Some bs"
  shows "b64decode (b64_char (n div 262144) # b64_char (n div 4096 mod 64)
           # b64_char (n div 64 mod 64) # b64_char (n mod 64) # rest) = Some (a # b # c # bs)"
proof -
  have n: "n < 16777216"
    unfolding n_def by (rule three_bytes_bound) (rule unat_byte_less)+
  note rc = sextets_recombine [OF n]
  have by3: "of_nat (n div 65536) = a" "of_nat (n div 256 mod 256) = b" "of_nat (n mod 256) = c"
    unfolding n_def by (simp_all add: bytes_of_three unat_byte_less)
  show ?thesis
  proof (cases rest)
    case Nil
    with rest have "bs = []" by simp
    with Nil show ?thesis
      by (simp add: b64_value_char b64_char_not_pad rc by3)
  next
    case (Cons r rs)
    with rest show ?thesis
      by (simp add: b64_value_char rc by3)
  qed
qed


lemma b64decode_one:
  fixes a :: "8 word"
  defines "n \<equiv> unat a * 65536"
  shows "b64decode [b64_char (n div 262144), b64_char (n div 4096 mod 64), CHR ''='', CHR ''='']
           = Some [a]"
proof -
  have n: "n < 16777216"
    using three_bytes_bound [OF unat_byte_less [of a], of 0 0] by (simp add: n_def)
  have e1: "n = (unat a * 1024) * 64" and e2: "unat a * 1024 = (unat a * 16) * 64"
    by (simp_all add: n_def)
  have z0: "n mod 64 = 0"
    unfolding e1 by simp
  have "n div 64 = unat a * 1024"
    unfolding e1 by simp
  then have z1: "n div 64 mod 64 = 0"
    unfolding e2 by simp
  have rc: "(n div 262144) mod 64 * 262144 + n div 4096 mod 64 * 4096 = n"
    using sextets_recombine [OF n] by (simp only: z0 z1 mult_0 add_0_right)
  have "of_nat (n div 65536) = a"
    unfolding n_def by simp
  then show ?thesis
    by (simp add: b64_value_char rc)
qed

lemma b64decode_two:
  fixes a b :: "8 word"
  defines "n \<equiv> unat a * 65536 + unat b * 256"
  shows "b64decode [b64_char (n div 262144), b64_char (n div 4096 mod 64),
                    b64_char (n div 64 mod 64), CHR ''='']
           = Some [a, b]"
proof -
  have n: "n < 16777216"
    using three_bytes_bound [OF unat_byte_less [of a] unat_byte_less [of b], of 0]
    by (simp add: n_def)
  have e1: "n = (unat a * 1024 + unat b * 4) * 64"
    by (simp add: n_def)
  have z0: "n mod 64 = 0"
    unfolding e1 by simp
  have rc: "(n div 262144) mod 64 * 262144 + n div 4096 mod 64 * 4096 + n div 64 mod 64 * 64 = n"
    using sextets_recombine [OF n] by (simp only: z0 add_0_right)
  have "of_nat (n div 65536) = a" and "of_nat (n div 256 mod 256) = b"
    unfolding n_def using bytes_of_three [of "unat b" 0 "unat a"]
    by (simp_all add: unat_byte_less)
  then show ?thesis
    by (simp add: b64_value_char b64_char_not_pad rc)
qed

lemma b64decode_b64encode: "b64decode (b64encode bs) = Some bs"
proof (induction bs rule: b64encode.induct)
  case 1
  show ?case by simp
next
  case (2 a)
  show ?case
    using b64decode_one [of a] by (simp add: Let_def)
next
  case (3 a b)
  show ?case
    using b64decode_two [of a b] by (simp add: Let_def)
next
  case (4 a b c rest)
  then show ?case
    using b64decode_group [of "b64encode rest" rest a b c] by (simp add: Let_def)
qed

section \<open>The artifact cache\<close>

lemma generate_qr_code_Inr:
  assumes "generate_qr_code lib i now c d f s b ec fc bc st = (Inr a, c')"
  shows "c' = AList.update i a c" and "qr_id a = i"
    and "generate_qr_sync lib d f s b ec fc bc st = Inr (file_data a)"
    and "base64_data a = b64encode (file_data a)"
  using assms by (auto simp: generate_qr_code_def Let_def split: sum.splits)

text \<open>
  C1. After a generation that returned the artifact \<open>a\<close> and stored it under its
  identifier, \<open>get_qr_code\<close> of that identifier returns exactly the bytes of \<open>a\<close>
  (with the content type of its format); and for every identifier that is not a key
  of the cache, \<open>get_qr_code\<close> fails with \<^verbatim>\<open>FileNotFoundError\<close>.
\<close>

theorem cache_get_after_generate:
  "(generate_qr_code lib i now c d f s b ec fc bc st = (Inr a, c') \<longrightarrow>
      get_qr_code c' (qr_id a) =
        Inr (file_data a,
             case content_types (upper (format a)) of Some t \<Rightarrow> t | None \<Rightarrow> ''image/png''))
   \<and> (j \<notin> fst ` set c \<longrightarrow>
      get_qr_code c j = Inl (Exn FileNotFoundError (''QR code '' @ j @ '' not found'')))"
proof (intro conjI impI)
  assume "generate_qr_code lib i now c d f s b ec fc bc st = (Inr a, c')"
  then have "c' = AList.update i a c" and "qr_id a = i"
    by (rule generate_qr_code_Inr)+
  then show "get_qr_code c' (qr_id a) =
      Inr (file_data a,
           case content_types (upper (format a)) of Some t \<Rightarrow> t | None \<Rightarrow> ''image/png'')"
    by (simp add: get_qr_code_def update_conv')
next
  assume "j \<notin> fst ` set c"
  then have "map_of c j = None"
    by (simp add: map_of_eq_None_iff)
  then show "get_qr_code c j = Inl (Exn FileNotFoundError (''QR code '' @ j @ '' not found''))"
    by (simp add: get_qr_code_def)
qed

theorem cache_get_after_generate_witness:
  "generate_qr_code sample_qrlib ''id-1'' 1000 [] ''a'' ''PNG'' 10 4 ''M'' ''black'' ''white'' None =
     (Inr \<lparr>qr_id = ''id-1'', data = ''a'', format = ''PNG'', qr_size = 10,
            file_data = [137, 80, 78, 71, 97], base64_data = ''iVBOR2E='',
            created_at = 1000, file_size = 5\<rparr>,
      [(''id-1'', \<lparr>qr_id = ''id-1'', data = ''a'', format = ''PNG'', qr_size = 10,
            file_data = [137, 80, 78, 71, 97], base64_data = ''iVBOR2E='',
            created_at = 1000, file_size = 5\<rparr>)])
   \<and> get_qr_code [(''id-1'', \<lparr>qr_id = ''id-1'', data = ''a'', format = ''PNG'', qr_size = 10,
            file_data = [137, 80, 78, 71, 97], base64_data = ''iVBOR2E='',
            created_at = 1000, file_size = 5\<rparr>)] ''id-1''
       = Inr ([137, 80, 78, 71, 97], ''image/png'')
   \<and> ''id-2'' \<notin> fst ` set ([] :: cache)
   \<and> get_qr_code [] ''id-2'' = Inl (Exn FileNotFoundError ''QR code id-2 not found'')"
proof -
  let ?a = "\<lparr>qr_id = ''id-1'', data = ''a'', format = ''PNG'', qr_size = 10,
            file_data = [137, 80, 78, 71, 97], base64_data = ''iVBOR2E='',
            created_at = 1000, file_size = 5\<rparr>"
  have g: "generate_qr_code sample_qrlib ''id-1'' 1000 [] ''a'' ''PNG'' 10 4 ''M'' ''black'' ''white''
             None = (Inr ?a, [(''id-1'', ?a)])"
    by (simp add: generate_qr_code_def sample_sync_png Let_def b64_char_def b64_alphabet_def)
  show ?thesis
    using g cache_get_after_generate [of sample_qrlib "''id-1''" 1000 "[]" "''a''" "''PNG''" 10 4
        "''M''" "''black''" "''white''" None ?a "[(''id-1'', ?a)]" "''id-2''"]
    by (simp add: content_types_def upper_PNG)
qed

text \<open>
  C9. A call of \<open>generate_qr_code\<close> that fails leaves the cache exactly as it was: in
  particular nothing is stored under the identifier generated for the call.
\<close>

theorem failed_generation_keeps_cache:
  "fst (generate_qr_code lib i now c d f s b ec fc bc st) = Inl e \<Longrightarrow>
   snd (generate_qr_code lib i now c d f s b ec fc bc st) = c"
  by (auto simp: generate_qr_code_def Let_def split: sum.splits)

theorem failed_generation_keeps_cache_witness:
  "fst (generate_qr_code sample_qrlib ''id-1'' 1000 [] ''a'' ''PNG'' 0 4 ''M'' ''black'' ''white'' None)
     = Inl (Exn ValueError ''Invalid box size'')
   \<and> snd (generate_qr_code sample_qrlib ''id-1'' 1000 [] ''a'' ''PNG'' 0 4 ''M'' ''black'' ''white'' None)
     = []"
proof -
  have f: "fst (generate_qr_code sample_qrlib ''id-1'' 1000 [] ''a'' ''PNG'' 0 4 ''M'' ''black''
             ''white'' None) = Inl (Exn ValueError ''Invalid box size'')"
    by (simp add: generate_qr_code_def sample_sync_box_size_0)
  from f failed_generation_keeps_cache [OF f] show ?thesis
    by simp
qed

section \<open>The dispatch on the level and on the format\<close>

text \<open>
  C10. For every \<open>error_correction\<close> string other than L, M, Q and H,
  \<open>generate_qr_code\<close> does exactly what it does for the string M: the same result, the
  same cache.
\<close>

theorem unknown_level_is_M:
  "ec \<notin> {''L'', ''M'', ''Q'', ''H''} \<Longrightarrow>
   generate_qr_code lib i now c d f s b ec fc bc st =
   generate_qr_code lib i now c d f s b ''M'' fc bc st"
  by (simp add: generate_qr_code_def generate_qr_sync_def error_correction_levels_def)

theorem unknown_level_is_M_witness:
  "''X'' \<notin> {''L'', ''M'', ''Q'', ''H''}
   \<and> generate_qr_code sample_qrlib ''id-1'' 1000 [] ''a'' ''PNG'' 10 4 ''X'' ''black'' ''white'' None =
     generate_qr_code sample_qrlib ''id-1'' 1000 [] ''a'' ''PNG'' 10 4 ''M'' ''black'' ''white'' None
   \<and> generate_qr_sync sample_qrlib  ''a'' ''PNG'' 10 4 ''X'' ''black'' ''white'' None
     = Inr [137, 80, 78, 71, 97]"
proof -
  have h: "''X'' \<notin> {''L'', ''M'', ''Q'', ''H''}"
    by simp
  from h unknown_level_is_M [OF h] sample_sync_level_X show ?thesis
    by blast
qed

text \<open>
  C2, as the code has it. There is no render error for the format: every format whose
  upper-cased text is neither SVG nor PDF, the values outside PNG, SVG and PDF
  included, is rendered as PNG, with the result of the format PNG.
\<close>

theorem other_format_is_png:
  "upper f \<noteq> ''SVG'' \<Longrightarrow> upper f \<noteq> ''PDF'' \<Longrightarrow>
   generate_qr_sync lib d f s b ec fc bc st = generate_qr_sync lib d ''PNG'' s b ec fc bc st"
  by (simp add: generate_qr_sync_def upper_PNG Let_def split: option.splits)

theorem other_format_is_png_witness:
  "upper ''GIF'' \<noteq> ''SVG'' \<and> upper ''GIF'' \<noteq> ''PDF''
   \<and> generate_qr_sync sample_qrlib ''a'' ''GIF'' 10 4 ''M'' ''black'' ''white'' None
     = generate_qr_sync sample_qrlib ''a'' ''PNG'' 10 4 ''M'' ''black'' ''white'' None"
proof -
  have h1: "upper ''GIF'' \<noteq> ''SVG''" and h2: "upper ''GIF'' \<noteq> ''PDF''"
    by (simp_all add: upper_GIF)
  from h1 h2 other_format_is_png [OF h1 h2] show ?thesis
    by blast
qed

text \<open>
  The claim C2 as it is written fails: GIF is none of the three formats, and the
  dispatch returns the bytes of a PNG file for it instead of failing.
\<close>

theorem unsupported_format_counterexample:
  "upper ''GIF'' \<notin> {''PNG'', ''SVG'', ''PDF''}
   \<and> generate_qr_sync sample_qrlib ''a'' ''GIF'' 10 4 ''M'' ''black'' ''white'' None
     = Inr [0x89, 0x50, 0x4E, 0x47, 0x61]"
  by (simp add: upper_GIF sample_sync_gif)

section \<open>The inline preview\<close>

text \<open>
  C7. For every successful generation the preview is the base64 text of the rendered
  bytes: \<open>base64_data\<close> of the returned artifact is \<open>b64encode\<close> of the bytes that
  \<open>generate_qr_sync\<close> returned, which are the bytes stored in the cache, and decoding
  it gives these bytes back. The same holds for the field \<open>qr_code_base64\<close> of the
  response the endpoint returns to the caller.
\<close>

theorem preview_is_base64_of_bytes:
  "(generate_qr_code lib i now c d f s b ec fc bc st = (Inr a, c') \<longrightarrow>
      generate_qr_sync lib d f s b ec fc bc st = Inr (file_data a)
      \<and> base64_data a = b64encode (file_data a)
      \<and> b64decode (base64_data a) = Some (file_data a)
      \<and> map_of c' (qr_id a) = Some a)
   \<and> (post_qr_generate lib i now c request = (Inr response, c'', tasks) \<longrightarrow>
      (\<exists>a'. map_of c'' (resp_id response) = Some a'
         \<and> qr_code_base64 response = b64encode (file_data a')
         \<and> b64decode (qr_code_base64 response) = Some (file_data a')))"
proof (intro conjI impI)
  assume g: "generate_qr_code lib i now c d f s b ec fc bc st = (Inr a, c')"
  note facts = generate_qr_code_Inr [OF g]
  show "generate_qr_sync lib d f s b ec fc bc st = Inr (file_data a)"
    by (rule facts(3))
  show "base64_data a = b64encode (file_data a)"
    by (rule facts(4))
  show "b64decode (base64_data a) = Some (file_data a)"
    by (simp add: facts(4) b64decode_b64encode)
  show "map_of c' (qr_id a) = Some a"
    by (simp add: facts(1,2) update_conv')
next
  let ?g = "generate_qr_code lib i now c (req_data request) (req_format request)
              (req_size request) (req_border request) (req_error_correction request)
              (req_fill_color request) (req_back_color request) None"
  assume p: "post_qr_generate lib i now c request = (Inr response, c'', tasks)"
  then obtain a' where g: "?g = (Inr a', c'')"
    and r: "resp_id response = qr_id a'" "qr_code_base64 response = base64_data a'"
    by (auto simp: post_qr_generate_def QRCodeResponse_def Let_def split: prod.splits sum.splits)
  note facts = generate_qr_code_Inr [OF g]
  have "map_of c'' (resp_id response) = Some a'"
    by (simp add: r facts(1,2) update_conv')
  moreover have "qr_code_base64 response = b64encode (file_data a')"
    by (simp add: r facts(4))
  moreover have "b64decode (qr_code_base64 response) = Some (file_data a')"
    by (simp add: r facts(4) b64decode_b64encode)
  ultimately show "\<exists>a'. map_of c'' (resp_id response) = Some a'
         \<and> qr_code_base64 response = b64encode (file_data a')
         \<and> b64decode (qr_code_base64 response) = Some (file_data a')"
    by blast
qed

theorem preview_is_base64_of_bytes_witness:
  "generate_qr_code sample_qrlib ''id-1'' 1000 [] ''a'' ''PNG'' 10 4 ''M'' ''black'' ''white'' None =
     (Inr \<lparr>qr_id = ''id-1'', data = ''a'', format = ''PNG'', qr_size = 10,
            file_data = [137, 80, 78, 71, 97], base64_data = ''iVBOR2E='',
            created_at = 1000, file_size = 5\<rparr>,
      [(''id-1'', \<lparr>qr_id = ''id-1'', data = ''a'', format = ''PNG'', qr_size = 10,
            file_data = [137, 80, 78, 71, 97], base64_data = ''iVBOR2E='',
            created_at = 1000, file_size = 5\<rparr>)])
   \<and> post_qr_generate sample_qrlib ''id-1'' 1000 []
       \<lparr>req_data = ''a'', req_format = ''PNG'', req_size = 10, req_border = 4,
        req_error_correction = ''M'', req_fill_color = ''black'', req_back_color = ''white''\<rparr> =
     (Inr \<lparr>resp_id = ''id-1'', resp_data = ''a'', resp_format = ''PNG'', resp_size = 10,
            download_url = ''/qr/download/id-1'', qr_code_base64 = ''iVBOR2E='',
            aws_url = None, azure_url = None, resp_created_at = 1000\<rparr>,
      [(''id-1'', \<lparr>qr_id = ''id-1'', data = ''a'', format = ''PNG'', qr_size = 10,
            file_data = [137, 80, 78, 71, 97], base64_data = ''iVBOR2E='',
            created_at = 1000, file_size = 5\<rparr>)],
      [(''id-1'', [137, 80, 78, 71, 97], lower ''PNG'')])
   \<and> b64decode ''iVBOR2E='' = Some [137, 80, 78, 71, 97]"
proof -
  let ?a = "\<lparr>qr_id = ''id-1'', data = ''a'', format = ''PNG'', qr_size = 10,
            file_data = [137, 80, 78, 71, 97], base64_data = ''iVBOR2E='',
            created_at = 1000, file_size = 5\<rparr>"
  let ?req = "\<lparr>req_data = ''a'', req_format = ''PNG'', req_size = 10, req_border = 4,
        req_error_correction = ''M'', req_fill_color = ''black'', req_back_color = ''white''\<rparr>"
  let ?resp = "\<lparr>resp_id = ''id-1'', resp_data = ''a'', resp_format = ''PNG'', resp_size = 10,
            download_url = ''/qr/download/id-1'', qr_code_base64 = ''iVBOR2E='',
            aws_url = None, azure_url = None, resp_created_at = 1000\<rparr>"
  have g: "generate_qr_code sample_qrlib ''id-1'' 1000 [] ''a'' ''PNG'' 10 4 ''M'' ''black'' ''white''
             None = (Inr ?a, [(''id-1'', ?a)])"
    by (simp add: generate_qr_code_def sample_sync_png Let_def b64_char_def b64_alphabet_def)
  have p: "post_qr_generate sample_qrlib ''id-1'' 1000 [] ?req =
             (Inr ?resp, [(''id-1'', ?a)], [(''id-1'', [137, 80, 78, 71, 97], lower ''PNG'')])"
    by (simp add: post_qr_generate_def g QRCodeResponse_def)
  from preview_is_base64_of_bytes [of sample_qrlib "''id-1''" 1000 "[]" "''a''" "''PNG''" 10 4
      "''M''" "''black''" "''white''" None ?a "[(''id-1'', ?a)]" ?req ?resp "[(''id-1'', ?a)]"
      "[(''id-1'', [137, 80, 78, 71, 97], lower ''PNG'')]"] g p
  show ?thesis
    by (simp add: b64_char_def b64_alphabet_def b64_value_def)
qed

section \<open>The statistics of the cache\<close>

lemma update_fresh: "k \<notin> fst ` set c \<Longrightarrow> AList.update k v c = c @ [(k, v)]"
  by (induction c) auto

lemma fold_update_fresh:
  "distinct (map qr_id arts) \<Longrightarrow> set (map qr_id arts) \<inter> fst ` set c = {} \<Longrightarrow>
   fold (\<lambda>a. AList.update (qr_id a) a) arts c = c @ map (\<lambda>a. (qr_id a, a)) arts"
proof (induction arts arbitrary: c)
  case Nil
  show ?case by simp
next
  case (Cons a arts)
  from Cons.prems have fresh: "qr_id a \<notin> fst ` set c"
    by auto
  have step: "AList.update (qr_id a) a c = c @ [(qr_id a, a)]"
    by (rule update_fresh [OF fresh])
  from Cons.prems have "distinct (map qr_id arts)"
    and "set (map qr_id arts) \<inter> fst ` set (c @ [(qr_id a, a)]) = {}"
    by auto
  from Cons.IH [OF this] show ?case
    by (simp add: step)
qed

text \<open>
  C6. When \<open>N\<close> artifacts with different identifiers have been stored in an empty
  cache, one after the other, by the cache write of \<open>generate_qr_code\<close> (the update of
  the lemma \<open>generate_qr_code_Inr\<close>), \<open>get_cache_stats\<close> reports \<open>N\<close> items and the
  sum of the lengths of their bytes.
\<close>

theorem stats_after_inserts:
  "distinct (map qr_id arts) \<Longrightarrow>
   get_cache_stats (fold (\<lambda>a. AList.update (qr_id a) a) arts []) =
     \<lparr>cached_items = length arts,
      total_cache_size = sum_list (map (\<lambda>a. length (file_data a)) arts)\<rparr>"
  using fold_update_fresh [of arts "[]"]
  by (simp add: get_cache_stats_def comp_def)

theorem stats_after_inserts_witness:
  "distinct (map qr_id
      [\<lparr>qr_id = ''id-1'', data = ''a'', format = ''PNG'', qr_size = 10,
        file_data = [137, 80, 78, 71, 97], base64_data = ''iVBOR2E='',
        created_at = 1000, file_size = 5\<rparr>,
       \<lparr>qr_id = ''id-2'', data = [], format = ''PNG'', qr_size = 10,
        file_data = [137, 80, 78, 71], base64_data = ''iVBORw=='',
        created_at = 1001, file_size = 4\<rparr>])
   \<and> get_cache_stats (fold (\<lambda>a. AList.update (qr_id a) a)
      [\<lparr>qr_id = ''id-1'', data = ''a'', format = ''PNG'', qr_size = 10,
        file_data = [137, 80, 78, 71, 97], base64_data = ''iVBOR2E='',
        created_at = 1000, file_size = 5\<rparr>,
       \<lparr>qr_id = ''id-2'', data = [], format = ''PNG'', qr_size = 10,
        file_data = [137, 80, 78, 71], base64_data = ''iVBORw=='',
        created_at = 1001, file_size = 4\<rparr>] [])
     = \<lparr>cached_items = 2, total_cache_size = 9\<rparr>"
proof -
  let ?arts = "[\<lparr>qr_id = ''id-1'', data = ''a'', format = ''PNG'', qr_size = 10,
        file_data = [137, 80, 78, 71, 97], base64_data = ''iVBOR2E='',
        created_at = 1000, file_size = 5\<rparr>,
       \<lparr>qr_id = ''id-2'', data = [], format = ''PNG'', qr_size = 10,
        file_data = [137, 80, 78, 71], base64_data = ''iVBORw=='',
        created_at = 1001, file_size = 4\<rparr>]"
  have h: "distinct (map qr_id ?arts)"
    by simp
  from h stats_after_inserts [OF h] show ?thesis
    by simp
qed

section \<open>The batch endpoint\<close>

lemma QRCodeResponse_without_preview:
  "QRCodeResponse i d f s url None created = Inl (Exn ValidationError ''qr_code_base64: field required'')"
  by (simp add: QRCodeResponse_def)

lemma batch_loop_first_item_fails:
  "\<exists>e c' ts. batch_loop lib u t f s (item # rest) k rs c tasks = (Inl e, c', ts)"
proof (cases "generate_qr_code lib (u k) (t k) c item f s 4 ''M'' ''black'' ''white'' None")
  case (Pair r c')
  then show ?thesis
    by (cases r) (simp_all add: QRCodeResponse_without_preview)
qed

text \<open>
  C5 on the code. For every batch of 1 to 100 items the endpoint answers with the HTTP
  error 500 and returns no artifact: the loop builds the response of the first item
  without \<^verbatim>\<open>qr_code_base64\<close>, a required field of \<^verbatim>\<open>QRCodeResponse\<close>, and the handler of
  the batch turns the validation error into the HTTP error. (The single-item endpoint
  passes the field.) The claim, one artifact for every item in the order of the
  items, does not hold for any non-empty batch.
\<close>

theorem batch_of_items_answers_500:
  "batch_items request \<noteq> [] \<Longrightarrow> length (batch_items request) \<le> 100 \<Longrightarrow>
   \<exists>detail c' tasks.
     generate_batch_qr_codes lib uuid4 utcnow c request = (Inl (HTTPException 500 detail), c', tasks)"
proof -
  assume ne: "batch_items request \<noteq> []" and le: "length (batch_items request) \<le> 100"
  from ne obtain item rest where it: "batch_items request = item # rest"
    by (cases "batch_items request") auto
  obtain e c' ts where
    "batch_loop lib uuid4 utcnow (batch_format request) (batch_size request) (item # rest) 0 [] c []
       = (Inl e, c', ts)"
    using batch_loop_first_item_fails by blast
  with le it show ?thesis
    by (simp add: generate_batch_qr_codes_def)
qed

lemma sample_generate_x:
  "generate_qr_code sample_qrlib ''id-x'' 1000 [] ''a'' ''PNG'' 10 4 ''M'' ''black'' ''white'' None =
     (Inr \<lparr>qr_id = ''id-x'', data = ''a'', format = ''PNG'', qr_size = 10,
            file_data = [137, 80, 78, 71, 97], base64_data = ''iVBOR2E='',
            created_at = 1000, file_size = 5\<rparr>,
      [(''id-x'', \<lparr>qr_id = ''id-x'', data = ''a'', format = ''PNG'', qr_size = 10,
            file_data = [137, 80, 78, 71, 97], base64_data = ''iVBOR2E='',
            created_at = 1000, file_size = 5\<rparr>)])"
  by (simp add: generate_qr_code_def sample_sync_png Let_def b64_char_def b64_alphabet_def)

theorem batch_of_items_answers_500_witness:
  "batch_items \<lparr>batch_items = [''a''], batch_format = ''PNG'', batch_size = 10\<rparr> \<noteq> []
   \<and> length (batch_items \<lparr>batch_items = [''a''], batch_format = ''PNG'', batch_size = 10\<rparr>) \<le> 100
   \<and> generate_batch_qr_codes sample_qrlib sample_uuid4 sample_utcnow []
       \<lparr>batch_items = [''a''], batch_format = ''PNG'', batch_size = 10\<rparr> =
     (Inl (HTTPException 500 ''Batch QR code generation failed: qr_code_base64: field required''),
      [(''id-x'', \<lparr>qr_id = ''id-x'', data = ''a'', format = ''PNG'', qr_size = 10,
            file_data = [137, 80, 78, 71, 97], base64_data = ''iVBOR2E='',
            created_at = 1000, file_size = 5\<rparr>)],
      [])"
proof -
  let ?req = "\<lparr>batch_items = [''a''], batch_format = ''PNG'', batch_size = 10\<rparr>"
  have h1: "batch_items ?req \<noteq> []" and h2: "length (batch_items ?req) \<le> 100"
    by simp_all
  have ev: "generate_batch_qr_codes sample_qrlib sample_uuid4 sample_utcnow [] ?req =
     (Inl (HTTPException 500 ''Batch QR code generation failed: qr_code_base64: field required''),
      [(''id-x'', \<lparr>qr_id = ''id-x'', data = ''a'', format = ''PNG'', qr_size = 10,
            file_data = [137, 80, 78, 71, 97], base64_data = ''iVBOR2E='',
            created_at = 1000, file_size = 5\<rparr>)],
      [])"
    by (simp add: generate_batch_qr_codes_def sample_uuid4_def sample_utcnow_def sample_generate_x
        QRCodeResponse_without_preview)
  from h1 h2 ev batch_of_items_answers_500 [OF h1 h2, of sample_qrlib sample_uuid4 sample_utcnow "[]"]
  show ?thesis
    by blast
qed

section \<open>The uploads to the two providers\<close>

lemma upload_to_aws_log:
  "upload_to_aws w sm t i fd f calls =
     (fst (upload_to_aws w sm t i fd f []), calls @ snd (upload_to_aws w sm t i fd f []))"
  by (simp add: upload_to_aws_def Let_def split: sum.splits)

lemma upload_to_azure_log:
  "upload_to_azure w sm t ts i fd f calls =
     (fst (upload_to_azure w sm t ts i fd f []), calls @ snd (upload_to_azure w sm t ts i fd f []))"
  by (simp add: upload_to_azure_def Let_def split: sum.splits)

text \<open>The Azure adapter: once the blob is stored, the SAS is asked for without a key.\<close>

lemma upload_to_azure_stored:
  assumes "azure_enabled sm"
    and "w (UploadBlob (azure_container sm) (object_key i f) fd (get_content_type f) t f True) = Inr x"
  shows "upload_to_azure w sm t ts i fd f calls =
    (Inl (Exn ValueError ''Either user_delegation_key or account_key must be provided.''),
     calls @ [UploadBlob (azure_container sm) (object_key i f) fd (get_content_type f) t f True,
              GenerateBlobSas (azure_account sm) (azure_container sm) (object_key i f) None None
                [''read''] (ts + 3600)])"
  using assms by (simp add: upload_to_azure_def Let_def except_return_None_def)

lemma upload_to_azure_no_url: "fst (upload_to_azure w sm t ts i fd f calls) \<noteq> Inr (Some url)"
proof (cases "azure_enabled sm")
  case False
  then show ?thesis
    by (simp add: upload_to_azure_def)
next
  case en: True
  show ?thesis
  proof (cases "w (UploadBlob (azure_container sm) (object_key i f) fd (get_content_type f) t f True)")
    case (Inl e)
    with en show ?thesis
      by (simp add: upload_to_azure_def Let_def except_return_None_def)
  next
    case (Inr x)
    from upload_to_azure_stored [where w = w, OF en Inr] show ?thesis
      by simp
  qed
qed

lemma upload_to_aws_disabled: "\<not> aws_enabled sm \<Longrightarrow> upload_to_aws w sm t i fd f calls = (Inr None, calls)"
  by (simp add: upload_to_aws_def)

lemma upload_to_aws_other_error:
  assumes "aws_enabled sm"
    and "w (PutObject (aws_bucket sm) (object_key i f) fd (get_content_type f) t f) = Inl e"
    and "exn_class_of e \<noteq> ClientError"
  shows "upload_to_aws w sm t i fd f calls =
    (Inl e, calls @ [PutObject (aws_bucket sm) (object_key i f) fd (get_content_type f) t f])"
  using assms by (simp add: upload_to_aws_def Let_def except_return_None_def)

lemma upload_to_storage_Uploaded:
  assumes "fst (upload_to_storage w sm t1 t2 t3 i fd f calls) = Uploaded a b"
  shows "\<exists>calls1. fst (upload_to_azure w sm t2 t3 i fd f calls1) = Inr b"
proof -
  obtain ra ca where 1: "upload_to_aws w sm t1 i fd f calls = (ra, ca)"
    by (cases "upload_to_aws w sm t1 i fd f calls") simp
  obtain rb cb where 2: "upload_to_azure w sm t2 t3 i fd f ca = (rb, cb)"
    by (cases "upload_to_azure w sm t2 t3 i fd f ca") simp
  from assms have "rb = Inr b"
    by (cases ra; cases rb) (simp_all add: upload_to_storage_def 1 2)
  with 2 have "fst (upload_to_azure w sm t2 t3 i fd f ca) = Inr b"
    by simp
  then show ?thesis ..
qed

text \<open>
  C3 on the code. Whenever Azure is enabled and stores the blob, \<open>upload_to_storage\<close>
  reports a failure: \<^verbatim>\<open>generate_blob_sas\<close> is called without a key and raises a
  \<^verbatim>\<open>ValueError\<close>, which the adapter's \<^verbatim>\<open>except AzureError\<close> does not catch. With AWS disabled
  and Azure enabled the report is that failure, not a URL for Azure; no report ever
  holds a URL for Azure. And a failure of the AWS upload that is no \<^verbatim>\<open>ClientError\<close> ends
  \<open>upload_to_storage\<close> before Azure is called: the two uploads share one
  \<^verbatim>\<open>try\<close>. The claim, that a failing or disabled provider does not keep the other from
  being attempted and that an enabled provider that succeeds yields its URL, does not
  hold.
\<close>

theorem azure_upload_is_never_reported:
  "(azure_enabled sm
      \<and> (\<exists>x. w (UploadBlob (azure_container sm) (object_key i f) fd (get_content_type f) t2 f
                   True) = Inr x)
      \<longrightarrow> (\<exists>msg. fst (upload_to_storage w sm t1 t2 t3 i fd f calls) = UploadFailed msg))
   \<and> (\<not> aws_enabled sm \<and> azure_enabled sm
      \<and> (\<exists>x. w (UploadBlob (azure_container sm) (object_key i f) fd (get_content_type f) t2 f
                   True) = Inr x)
      \<longrightarrow> upload_to_storage w sm t1 t2 t3 i fd f calls =
            (UploadFailed ''Either user_delegation_key or account_key must be provided.'',
             calls @ [UploadBlob (azure_container sm) (object_key i f) fd (get_content_type f) t2 f
                        True,
                      GenerateBlobSas (azure_account sm) (azure_container sm) (object_key i f)
                        None None [''read''] (t3 + 3600)]))
   \<and> (fst (upload_to_storage w sm t1 t2 t3 i fd f calls) = Uploaded a b \<longrightarrow> b = None)
   \<and> (aws_enabled sm
      \<and> w (PutObject (aws_bucket sm) (object_key i f) fd (get_content_type f) t1 f) = Inl e
      \<and> exn_class_of e \<noteq> ClientError
      \<longrightarrow> upload_to_storage w sm t1 t2 t3 i fd f calls =
            (UploadFailed (str_exn e),
             calls @ [PutObject (aws_bucket sm) (object_key i f) fd (get_content_type f) t1 f]))"
proof (intro conjI impI)
  assume "azure_enabled sm
      \<and> (\<exists>x. w (UploadBlob (azure_container sm) (object_key i f) fd (get_content_type f) t2 f
                   True) = Inr x)"
  then obtain x where en: "azure_enabled sm"
    and up: "w (UploadBlob (azure_container sm) (object_key i f) fd (get_content_type f) t2 f
                   True) = Inr x"
    by blast
  obtain ra ca where 1: "upload_to_aws w sm t1 i fd f calls = (ra, ca)"
    by (cases "upload_to_aws w sm t1 i fd f calls") simp
  show "\<exists>msg. fst (upload_to_storage w sm t1 t2 t3 i fd f calls) = UploadFailed msg"
    by (cases ra) (simp_all add: upload_to_storage_def 1 upload_to_azure_stored [where w = w, OF en up])
next
  assume "\<not> aws_enabled sm \<and> azure_enabled sm
      \<and> (\<exists>x. w (UploadBlob (azure_container sm) (object_key i f) fd (get_content_type f) t2 f
                   True) = Inr x)"
  then obtain x where off: "\<not> aws_enabled sm" and en: "azure_enabled sm"
    and up: "w (UploadBlob (azure_container sm) (object_key i f) fd (get_content_type f) t2 f
                   True) = Inr x"
    by blast
  show "upload_to_storage w sm t1 t2 t3 i fd f calls =
            (UploadFailed ''Either user_delegation_key or account_key must be provided.'',
             calls @ [UploadBlob (azure_container sm) (object_key i f) fd (get_content_type f) t2 f
                        True,
                      GenerateBlobSas (azure_account sm) (azure_container sm) (object_key i f)
                        None None [''read''] (t3 + 3600)])"
    by (simp add: upload_to_storage_def upload_to_aws_disabled [OF off]
        upload_to_azure_stored [where w = w, OF en up])
next
  assume "fst (upload_to_storage w sm t1 t2 t3 i fd f calls) = Uploaded a b"
  then obtain calls1 where "fst (upload_to_azure w sm t2 t3 i fd f calls1) = Inr b"
    using upload_to_storage_Uploaded by blast
  with upload_to_azure_no_url [of w sm t2 t3 i fd f calls1] show "b = None"
    by (cases b) auto
next
  assume "aws_enabled sm
      \<and> w (PutObject (aws_bucket sm) (object_key i f) fd (get_content_type f) t1 f) = Inl e
      \<and> exn_class_of e \<noteq> ClientError"
  then have "upload_to_aws w sm t1 i fd f calls =
    (Inl e, calls @ [PutObject (aws_bucket sm) (object_key i f) fd (get_content_type f) t1 f])"
    using upload_to_aws_other_error [where w = w] by blast
  then show "upload_to_storage w sm t1 t2 t3 i fd f calls =
            (UploadFailed (str_exn e),
             calls @ [PutObject (aws_bucket sm) (object_key i f) fd (get_content_type f) t1 f])"
    by (simp add: upload_to_storage_def)
qed


lemma sample_key: "object_key ''id-1'' ''png'' = ''qr-codes/id-1.png''"
  by (simp add: object_key_def lower_png)

lemma sample_content_type: "get_content_type ''png'' = ''image/png''"
  by (simp add: get_content_type_def lower_png)

lemma sample_key_PNG: "object_key ''id-1'' ''PNG'' = ''qr-codes/id-1.png''"
  by (simp add: object_key_def lower_PNG)

lemma sample_content_type_PNG: "get_content_type ''PNG'' = ''image/png''"
  by (simp add: get_content_type_def lower_PNG)

lemma sample_upload_aws_disabled:
  "upload_to_storage sample_world (sample_manager\<lparr>aws_enabled := False\<rparr>) 100 200 300 ''id-1''
       [137, 80, 78, 71, 97] ''png'' [] =
     (UploadFailed ''Either user_delegation_key or account_key must be provided.'',
      [UploadBlob ''qr-codes'' ''qr-codes/id-1.png'' [137, 80, 78, 71, 97] ''image/png'' 200 ''png'' True,
       GenerateBlobSas (Some ''acct'') ''qr-codes'' ''qr-codes/id-1.png'' None None [''read''] 3900])"
  by (simp add: upload_to_storage_def upload_to_aws_def upload_to_azure_def sample_manager_def
      sample_key sample_content_type except_return_None_def Let_def)

lemma sample_upload_both:
  "upload_to_storage sample_world sample_manager 100 200 300 ''id-1'' [137, 80, 78, 71, 97] ''png'' [] =
     (UploadFailed ''Either user_delegation_key or account_key must be provided.'',
      [PutObject ''qr-codes-bucket'' ''qr-codes/id-1.png'' [137, 80, 78, 71, 97] ''image/png'' 100 ''png'',
       GeneratePresignedUrl ''get_object'' ''qr-codes-bucket'' ''qr-codes/id-1.png'' 3600,
       UploadBlob ''qr-codes'' ''qr-codes/id-1.png'' [137, 80, 78, 71, 97] ''image/png'' 200 ''png'' True,
       GenerateBlobSas (Some ''acct'') ''qr-codes'' ''qr-codes/id-1.png'' None None [''read''] 3900])"
  by (simp add: upload_to_storage_def upload_to_aws_def upload_to_azure_def sample_manager_def
      sample_key sample_content_type except_return_None_def Let_def)

lemma sample_upload_azure_disabled:
  "upload_to_storage sample_world (sample_manager\<lparr>azure_enabled := False\<rparr>) 100 200 300 ''id-1''
       [137, 80, 78, 71, 97] ''png'' [] =
     (Uploaded (Some ''https://qr-codes-bucket.s3.amazonaws.com/qr-codes/id-1.png'') None,
      [PutObject ''qr-codes-bucket'' ''qr-codes/id-1.png'' [137, 80, 78, 71, 97] ''image/png'' 100 ''png'',
       GeneratePresignedUrl ''get_object'' ''qr-codes-bucket'' ''qr-codes/id-1.png'' 3600])"
  by (simp add: upload_to_storage_def upload_to_aws_def upload_to_azure_def sample_manager_def
      sample_key sample_content_type except_return_None_def Let_def)

lemma sample_upload_aws_down:
  "upload_to_storage aws_down sample_manager 100 200 300 ''id-1'' [137, 80, 78, 71, 97] ''png'' [] =
     (UploadFailed ''Could not connect to the endpoint URL'',
      [PutObject ''qr-codes-bucket'' ''qr-codes/id-1.png'' [137, 80, 78, 71, 97] ''image/png'' 100 ''png''])"
  by (simp add: upload_to_storage_def upload_to_aws_def upload_to_azure_def sample_manager_def
      sample_key sample_content_type aws_down_def except_return_None_def Let_def)

theorem azure_upload_is_never_reported_witness:
  "upload_to_storage sample_world (sample_manager\<lparr>aws_enabled := False\<rparr>) 100 200 300 ''id-1''
       [137, 80, 78, 71, 97] ''png'' [] =
     (UploadFailed ''Either user_delegation_key or account_key must be provided.'',
      [UploadBlob ''qr-codes'' ''qr-codes/id-1.png'' [137, 80, 78, 71, 97] ''image/png'' 200 ''png'' True,
       GenerateBlobSas (Some ''acct'') ''qr-codes'' ''qr-codes/id-1.png'' None None [''read''] 3900])
   \<and> fst (upload_to_storage sample_world sample_manager 100 200 300 ''id-1'' [137, 80, 78, 71, 97]
          ''png'' [])
       = UploadFailed ''Either user_delegation_key or account_key must be provided.''
   \<and> fst (upload_to_storage sample_world (sample_manager\<lparr>azure_enabled := False\<rparr>) 100 200 300
          ''id-1'' [137, 80, 78, 71, 97] ''png'' [])
       = Uploaded (Some ''https://qr-codes-bucket.s3.amazonaws.com/qr-codes/id-1.png'') None
   \<and> upload_to_storage aws_down sample_manager 100 200 300 ''id-1'' [137, 80, 78, 71, 97] ''png'' [] =
     (UploadFailed ''Could not connect to the endpoint URL'',
      [PutObject ''qr-codes-bucket'' ''qr-codes/id-1.png'' [137, 80, 78, 71, 97] ''image/png'' 100 ''png''])"
proof -
  let ?fd = "[137, 80, 78, 71, 97] :: bytes"
  let ?off = "sample_manager\<lparr>aws_enabled := False\<rparr>"
  have en: "aws_enabled sample_manager" "azure_enabled sample_manager"
    "\<not> aws_enabled ?off" "azure_enabled ?off"
    by (simp_all add: sample_manager_def)
  have up: "sample_world (UploadBlob (azure_container sm) (object_key ''id-1'' ''png'') ?fd
              (get_content_type ''png'') 200 ''png'' True) = Inr []" for sm
    by simp
  have put: "aws_down (PutObject (aws_bucket sample_manager) (object_key ''id-1'' ''png'') ?fd
               (get_content_type ''png'') 100 ''png'')
             = Inl (Exn OtherError ''Could not connect to the endpoint URL'')"
    by (simp add: aws_down_def)
  note T = azure_upload_is_never_reported
  from T [where sm = ?off and w = sample_world and i = "''id-1''" and f = "''png''" and fd = ?fd
      and ?t1.0 = 100 and ?t2.0 = 200 and ?t3.0 = 300 and calls = "[]"] en up
  have 1: "upload_to_storage sample_world ?off 100 200 300 ''id-1'' ?fd ''png'' [] =
      (UploadFailed ''Either user_delegation_key or account_key must be provided.'',
       [] @ [UploadBlob (azure_container ?off) (object_key ''id-1'' ''png'') ?fd
               (get_content_type ''png'') 200 ''png'' True,
             GenerateBlobSas (azure_account ?off) (azure_container ?off) (object_key ''id-1'' ''png'')
               None None [''read''] (300 + 3600)])"
    by blast
  from T [where sm = sample_manager and w = sample_world and i = "''id-1''" and f = "''png''"
      and fd = ?fd and ?t1.0 = 100 and ?t2.0 = 200 and ?t3.0 = 300 and calls = "[]"] en up
  obtain msg where 2: "fst (upload_to_storage sample_world sample_manager 100 200 300 ''id-1'' ?fd
      ''png'' []) = UploadFailed msg"
    by blast
  from T [where sm = "sample_manager\<lparr>azure_enabled := False\<rparr>" and w = sample_world
      and i = "''id-1''" and f = "''png''" and fd = ?fd and ?t1.0 = 100 and ?t2.0 = 200
      and ?t3.0 = 300 and calls = "[]"
      and a = "Some ''https://qr-codes-bucket.s3.amazonaws.com/qr-codes/id-1.png''" and b = None]
    sample_upload_azure_disabled
  have 3: "fst (upload_to_storage sample_world (sample_manager\<lparr>azure_enabled := False\<rparr>) 100 200
      300 ''id-1'' ?fd ''png'' [])
       = Uploaded (Some ''https://qr-codes-bucket.s3.amazonaws.com/qr-codes/id-1.png'') None"
    by simp
  from T [where sm = sample_manager and w = aws_down and i = "''id-1''" and f = "''png''"
      and fd = ?fd and ?t1.0 = 100 and ?t2.0 = 200 and ?t3.0 = 300 and calls = "[]"
      and e = "Exn OtherError ''Could not connect to the endpoint URL''"] en put
  have 4: "upload_to_storage aws_down sample_manager 100 200 300 ''id-1'' ?fd ''png'' [] =
      (UploadFailed (str_exn (Exn OtherError ''Could not connect to the endpoint URL'')),
       [] @ [PutObject (aws_bucket sample_manager) (object_key ''id-1'' ''png'') ?fd
               (get_content_type ''png'') 100 ''png''])"
    by simp
  from 2 sample_upload_both have 5: "fst (upload_to_storage sample_world sample_manager 100 200 300
      ''id-1'' ?fd ''png'' []) = UploadFailed ''Either user_delegation_key or account_key must be provided.''"
    by simp
  from 1 5 3 4 show ?thesis
    by (simp add: sample_key sample_content_type sample_manager_def)
qed

lemma upload_to_aws_Some:
  assumes A: "fst (upload_to_aws w sm t i fd f calls) = Inr (Some url)"
  shows "snd (upload_to_aws w sm t i fd f calls) =
           calls @ [PutObject (aws_bucket sm) (object_key i f) fd (get_content_type f) t f,
                    GeneratePresignedUrl ''get_object'' (aws_bucket sm) (object_key i f) 3600]
         \<and> w (GeneratePresignedUrl ''get_object'' (aws_bucket sm) (object_key i f) 3600) = Inr url"
proof (cases "aws_enabled sm")
  case False
  with A show ?thesis
    by (simp add: upload_to_aws_def)
next
  case en: True
  show ?thesis
  proof (cases "w (PutObject (aws_bucket sm) (object_key i f) fd (get_content_type f) t f)")
    case (Inl e)
    with A en show ?thesis
      by (simp add: upload_to_aws_def Let_def except_return_None_def split: if_splits)
  next
    case put: (Inr x)
    show ?thesis
    proof (cases "w (GeneratePresignedUrl ''get_object'' (aws_bucket sm) (object_key i f) 3600)")
      case (Inl e)
      with A en put show ?thesis
        by (simp add: upload_to_aws_def Let_def except_return_None_def split: if_splits)
    next
      case (Inr u)
      with A en put show ?thesis
        by (simp add: upload_to_aws_def Let_def)
    qed
  qed
qed

lemma upload_to_aws_calls:
  "set (snd (upload_to_aws w sm t i fd f [])) \<subseteq>
     {PutObject (aws_bucket sm) (object_key i f) fd (get_content_type f) t f,
      GeneratePresignedUrl ''get_object'' (aws_bucket sm) (object_key i f) 3600}"
  by (simp add: upload_to_aws_def Let_def split: sum.splits)

lemma upload_to_azure_calls:
  "set (snd (upload_to_azure w sm t ts i fd f [])) \<subseteq>
     {UploadBlob (azure_container sm) (object_key i f) fd (get_content_type f) t f True,
      GenerateBlobSas (azure_account sm) (azure_container sm) (object_key i f) None None [''read'']
        (ts + 3600)}"
  by (simp add: upload_to_azure_def Let_def split: sum.splits)

lemma upload_to_storage_calls:
  "set (snd (upload_to_storage w sm t1 t2 t3 i fd f [])) \<subseteq>
     set (snd (upload_to_aws w sm t1 i fd f [])) \<union> set (snd (upload_to_azure w sm t2 t3 i fd f []))"
proof -
  obtain ra ca where 1: "upload_to_aws w sm t1 i fd f [] = (ra, ca)"
    by (cases "upload_to_aws w sm t1 i fd f []") simp
  obtain rb cb where 0: "upload_to_azure w sm t2 t3 i fd f [] = (rb, cb)"
    by (cases "upload_to_azure w sm t2 t3 i fd f []") simp
  have 2: "upload_to_azure w sm t2 t3 i fd f ca = (rb, ca @ cb)"
    using upload_to_azure_log [of w sm t2 t3 i fd f ca] by (simp add: 0)
  show ?thesis
    by (cases ra; cases rb) (simp_all add: upload_to_storage_def 0 1 2)
qed

text \<open>
  C8 on the code. Every call an upload makes names the object
  \<^verbatim>\<open>qr-codes/<id>.<lower-cased format>\<close>, so both providers store the bytes under that
  key; the AWS URL is presigned for \<^verbatim>\<open>get_object\<close> with \<^verbatim>\<open>ExpiresIn=3600\<close>, and a URL AWS
  returns is the one signed for the key. The Azure adapter asks for a SAS with the
  permission \<^verbatim>\<open>read\<close> alone and an expiry 3600 seconds after the clock reading, but
  without a key: once the blob is stored the call raises, and the adapter never returns
  a URL. The claim holds for the keys and for AWS; for Azure there is no signed URL.
\<close>

theorem signed_urls_key_and_expiry:
  "(\<forall>call \<in> set (snd (upload_to_storage w sm t1 t2 t3 i fd f [])).
        call_key call = ''qr-codes/'' @ i @ ''.'' @ lower f
        \<and> (case call of
             GeneratePresignedUrl m b k ex \<Rightarrow> m = ''get_object'' \<and> ex = 3600
           | GenerateBlobSas a c b ak udk ps ex \<Rightarrow>
               ps = [''read''] \<and> ex = t3 + 3600 \<and> ak = None \<and> udk = None
           | _ \<Rightarrow> True))
   \<and> (fst (upload_to_aws w sm t1 i fd f calls) = Inr (Some url) \<longrightarrow>
      snd (upload_to_aws w sm t1 i fd f calls) =
        calls @ [PutObject (aws_bucket sm) (''qr-codes/'' @ i @ ''.'' @ lower f) fd
                   (get_content_type f) t1 f,
                 GeneratePresignedUrl ''get_object'' (aws_bucket sm)
                   (''qr-codes/'' @ i @ ''.'' @ lower f) 3600]
      \<and> w (GeneratePresignedUrl ''get_object'' (aws_bucket sm)
             (''qr-codes/'' @ i @ ''.'' @ lower f) 3600) = Inr url)
   \<and> (azure_enabled sm
      \<and> (\<exists>x. w (UploadBlob (azure_container sm) (''qr-codes/'' @ i @ ''.'' @ lower f) fd
                   (get_content_type f) t2 f True) = Inr x)
      \<longrightarrow> upload_to_azure w sm t2 t3 i fd f calls =
            (Inl (Exn ValueError ''Either user_delegation_key or account_key must be provided.''),
             calls @ [UploadBlob (azure_container sm) (''qr-codes/'' @ i @ ''.'' @ lower f) fd
                        (get_content_type f) t2 f True,
                      GenerateBlobSas (azure_account sm) (azure_container sm)
                        (''qr-codes/'' @ i @ ''.'' @ lower f) None None [''read''] (t3 + 3600)]))
   \<and> fst (upload_to_azure w sm t2 t3 i fd f calls) \<noteq> Inr (Some url')"
proof -
  have k: "''qr-codes/'' @ i @ ''.'' @ lower f = object_key i f"
    by (simp add: object_key_def)
  have p1: "\<forall>call \<in> set (snd (upload_to_storage w sm t1 t2 t3 i fd f [])).
        call_key call = object_key i f
        \<and> (case call of
             GeneratePresignedUrl m b k ex \<Rightarrow> m = ''get_object'' \<and> ex = 3600
           | GenerateBlobSas a c b ak udk ps ex \<Rightarrow>
               ps = [''read''] \<and> ex = t3 + 3600 \<and> ak = None \<and> udk = None
           | _ \<Rightarrow> True)"
  proof
    fix call
    assume "call \<in> set (snd (upload_to_storage w sm t1 t2 t3 i fd f []))"
    with upload_to_storage_calls [of w sm t1 t2 t3 i fd f]
      upload_to_aws_calls [of w sm t1 i fd f] upload_to_azure_calls [of w sm t2 t3 i fd f]
    have "call \<in> {PutObject (aws_bucket sm) (object_key i f) fd (get_content_type f) t1 f,
        GeneratePresignedUrl ''get_object'' (aws_bucket sm) (object_key i f) 3600,
        UploadBlob (azure_container sm) (object_key i f) fd (get_content_type f) t2 f True,
        GenerateBlobSas (azure_account sm) (azure_container sm) (object_key i f) None None
          [''read''] (t3 + 3600)}"
      by blast
    then show "call_key call = object_key i f
        \<and> (case call of
             GeneratePresignedUrl m b k ex \<Rightarrow> m = ''get_object'' \<and> ex = 3600
           | GenerateBlobSas a c b ak udk ps ex \<Rightarrow>
               ps = [''read''] \<and> ex = t3 + 3600 \<and> ak = None \<and> udk = None
           | _ \<Rightarrow> True)"
      by (elim insertE emptyE) simp_all
  qed
  have p2: "fst (upload_to_aws w sm t1 i fd f calls) = Inr (Some url) \<longrightarrow>
      snd (upload_to_aws w sm t1 i fd f calls) =
        calls @ [PutObject (aws_bucket sm) (object_key i f) fd (get_content_type f) t1 f,
                 GeneratePresignedUrl ''get_object'' (aws_bucket sm) (object_key i f) 3600]
      \<and> w (GeneratePresignedUrl ''get_object'' (aws_bucket sm) (object_key i f) 3600) = Inr url"
    using upload_to_aws_Some [of w sm t1 i fd f calls url] by blast
  have p3: "azure_enabled sm
      \<and> (\<exists>x. w (UploadBlob (azure_container sm) (object_key i f) fd (get_content_type f) t2 f
                   True) = Inr x)
      \<longrightarrow> upload_to_azure w sm t2 t3 i fd f calls =
            (Inl (Exn ValueError ''Either user_delegation_key or account_key must be provided.''),
             calls @ [UploadBlob (azure_container sm) (object_key i f) fd (get_content_type f) t2 f
                        True,
                      GenerateBlobSas (azure_account sm) (azure_container sm) (object_key i f)
                        None None [''read''] (t3 + 3600)])"
    using upload_to_azure_stored [where w = w] by blast
  have p4: "fst (upload_to_azure w sm t2 t3 i fd f calls) \<noteq> Inr (Some url')"
    by (rule upload_to_azure_no_url)
  show ?thesis
    unfolding k using p1 p2 p3 p4 by (intro conjI)
qed

lemma sample_upload_aws_PNG:
  "upload_to_aws sample_world sample_manager 100 ''id-1'' [137, 80, 78, 71, 97] ''PNG'' [] =
     (Inr (Some ''https://qr-codes-bucket.s3.amazonaws.com/qr-codes/id-1.png''),
      [PutObject ''qr-codes-bucket'' ''qr-codes/id-1.png'' [137, 80, 78, 71, 97] ''image/png'' 100 ''PNG'',
       GeneratePresignedUrl ''get_object'' ''qr-codes-bucket'' ''qr-codes/id-1.png'' 3600])"
  by (simp add: upload_to_aws_def sample_manager_def sample_key_PNG sample_content_type_PNG Let_def)

lemma sample_upload_azure_PNG:
  "upload_to_azure sample_world sample_manager 200 300 ''id-1'' [137, 80, 78, 71, 97] ''PNG'' [] =
     (Inl (Exn ValueError ''Either user_delegation_key or account_key must be provided.''),
      [UploadBlob ''qr-codes'' ''qr-codes/id-1.png'' [137, 80, 78, 71, 97] ''image/png'' 200 ''PNG'' True,
       GenerateBlobSas (Some ''acct'') ''qr-codes'' ''qr-codes/id-1.png'' None None [''read''] 3900])"
  by (simp add: upload_to_azure_def sample_manager_def sample_key_PNG sample_content_type_PNG
      except_return_None_def Let_def)

lemma sample_upload_both_PNG:
  "snd (upload_to_storage sample_world sample_manager 100 200 300 ''id-1'' [137, 80, 78, 71, 97]
          ''PNG'' []) =
      [PutObject ''qr-codes-bucket'' ''qr-codes/id-1.png'' [137, 80, 78, 71, 97] ''image/png'' 100 ''PNG'',
       GeneratePresignedUrl ''get_object'' ''qr-codes-bucket'' ''qr-codes/id-1.png'' 3600,
       UploadBlob ''qr-codes'' ''qr-codes/id-1.png'' [137, 80, 78, 71, 97] ''image/png'' 200 ''PNG'' True,
       GenerateBlobSas (Some ''acct'') ''qr-codes'' ''qr-codes/id-1.png'' None None [''read''] 3900]"
  by (simp add: upload_to_storage_def upload_to_aws_def upload_to_azure_def sample_manager_def
      sample_key_PNG sample_content_type_PNG except_return_None_def Let_def)

theorem signed_urls_key_and_expiry_witness:
  "upload_to_aws sample_world sample_manager 100 ''id-1'' [137, 80, 78, 71, 97] ''PNG'' [] =
     (Inr (Some ''https://qr-codes-bucket.s3.amazonaws.com/qr-codes/id-1.png''),
      [PutObject ''qr-codes-bucket'' ''qr-codes/id-1.png'' [137, 80, 78, 71, 97] ''image/png'' 100 ''PNG'',
       GeneratePresignedUrl ''get_object'' ''qr-codes-bucket'' ''qr-codes/id-1.png'' 3600])
   \<and> upload_to_azure sample_world sample_manager 200 300 ''id-1'' [137, 80, 78, 71, 97] ''PNG'' [] =
     (Inl (Exn ValueError ''Either user_delegation_key or account_key must be provided.''),
      [UploadBlob ''qr-codes'' ''qr-codes/id-1.png'' [137, 80, 78, 71, 97] ''image/png'' 200 ''PNG'' True,
       GenerateBlobSas (Some ''acct'') ''qr-codes'' ''qr-codes/id-1.png'' None None [''read''] 3900])
   \<and> UploadBlob ''qr-codes'' ''qr-codes/id-1.png'' [137, 80, 78, 71, 97] ''image/png'' 200 ''PNG'' True
       \<in> set (snd (upload_to_storage sample_world sample_manager 100 200 300 ''id-1''
                      [137, 80, 78, 71, 97] ''PNG'' []))
   \<and> call_key (UploadBlob ''qr-codes'' ''qr-codes/id-1.png'' [137, 80, 78, 71, 97] ''image/png'' 200
                  ''PNG'' True)
       = ''qr-codes/'' @ ''id-1'' @ ''.'' @ lower ''PNG''
   \<and> ''qr-codes/'' @ ''id-1'' @ ''.'' @ lower ''PNG'' = ''qr-codes/id-1.png''"
proof -
  let ?fd = "[137, 80, 78, 71, 97] :: bytes"
  let ?up = "UploadBlob ''qr-codes'' ''qr-codes/id-1.png'' ?fd ''image/png'' 200 ''PNG'' True"
  note T = signed_urls_key_and_expiry [where w = sample_world and sm = sample_manager
      and i = "''id-1''" and f = "''PNG''" and fd = ?fd and ?t1.0 = 100 and ?t2.0 = 200
      and ?t3.0 = 300 and calls = "[]"
      and url = "''https://qr-codes-bucket.s3.amazonaws.com/qr-codes/id-1.png''"]
  have m: "?up \<in> set (snd (upload_to_storage sample_world sample_manager 100 200 300 ''id-1'' ?fd
                      ''PNG'' []))"
    by (simp add: sample_upload_both_PNG)
  with T have k: "call_key ?up = ''qr-codes/'' @ ''id-1'' @ ''.'' @ lower ''PNG''"
    by blast
  have en: "azure_enabled sample_manager"
    by (simp add: sample_manager_def)
  have st: "sample_world (UploadBlob (azure_container sample_manager)
              (''qr-codes/'' @ ''id-1'' @ ''.'' @ lower ''PNG'') ?fd (get_content_type ''PNG'') 200
              ''PNG'' True) = Inr []"
    by simp
  from T en st have az: "upload_to_azure sample_world sample_manager 200 300 ''id-1'' ?fd ''PNG'' [] =
      (Inl (Exn ValueError ''Either user_delegation_key or account_key must be provided.''),
       [] @ [UploadBlob (azure_container sample_manager) (''qr-codes/'' @ ''id-1'' @ ''.'' @ lower ''PNG'')
               ?fd (get_content_type ''PNG'') 200 ''PNG'' True,
             GenerateBlobSas (azure_account sample_manager) (azure_container sample_manager)
               (''qr-codes/'' @ ''id-1'' @ ''.'' @ lower ''PNG'') None None [''read''] (300 + 3600)])"
    by blast
  have lk: "''qr-codes/'' @ ''id-1'' @ ''.'' @ lower ''PNG'' = ''qr-codes/id-1.png''"
    by (simp add: lower_PNG)
  from az have az': "upload_to_azure sample_world sample_manager 200 300 ''id-1'' ?fd ''PNG'' [] =
     (Inl (Exn ValueError ''Either user_delegation_key or account_key must be provided.''),
      [UploadBlob ''qr-codes'' ''qr-codes/id-1.png'' ?fd ''image/png'' 200 ''PNG'' True,
       GenerateBlobSas (Some ''acct'') ''qr-codes'' ''qr-codes/id-1.png'' None None [''read''] 3900])"
    by (simp add: lower_PNG sample_content_type_PNG sample_manager_def)
  from sample_upload_aws_PNG az' m k lk show ?thesis
    by (intro conjI)
qed

section \<open>The capacity of the encoder\<close>

lemma length_to_bytestring: "length s \<le> length (to_bytestring s)"
  by (induction s) (simp_all add: to_bytestring_def Let_def)

lemma concat_optimal_split_runs:
  "concat (map snd (optimal_split_runs P m pending bs)) = pending @ bs"
proof (induction P m pending bs rule: optimal_split_runs.induct)
  case (1 P m pending)
  show ?case by simp
next
  case (2 P m pending x xs)
  have td: "takeWhile P (x # xs) @ dropWhile P (x # xs) = x # xs"
    by (rule takeWhile_dropWhile_id)
  show ?case
  proof (cases "P x")
    case False
    with 2 show ?thesis by simp
  next
    case px: True
    show ?thesis
    proof (cases "m \<le> length (takeWhile P (x # xs))")
      case True
      with px 2(1) [OF px refl refl True] td show ?thesis
        by (simp add: Let_def)
    next
      case False
      with px 2(2) [OF px refl refl False] td show ?thesis
        by (simp add: Let_def)
    qed
  qed
qed

lemma concat_optimal_split_whole: "concat (map snd (optimal_split_whole P bs)) = bs"
proof (cases "dropWhile P bs = []")
  case True
  then have "takeWhile P bs = bs"
    by (metis append_Nil2 takeWhile_dropWhile_id)
  with True show ?thesis
    by (simp add: optimal_split_whole_def Let_def)
next
  case ne: False
  show ?thesis
  proof (cases "takeWhile P bs \<noteq> [] \<and> dropWhile P bs = [10]")
    case True
    then have "takeWhile P bs @ [10] = bs"
      by (metis takeWhile_dropWhile_id)
    with True show ?thesis
      by (simp add: optimal_split_whole_def Let_def)
  next
    case False
    with ne show ?thesis
      by (auto simp: optimal_split_whole_def Let_def)
  qed
qed

lemma concat_optimal_split: "concat (map snd (optimal_split P m whole bs)) = bs"
  by (simp add: optimal_split_def concat_optimal_split_whole concat_optimal_split_runs)

lemma concat_map_snd_concat:
  "(\<And>p. p \<in> set xs \<Longrightarrow> concat (map snd (g p)) = snd p) \<Longrightarrow>
   concat (map snd (concat (map g xs))) = concat (map snd xs)"
  by (induction xs) simp_all

lemma concat_optimal_data_chunks: "concat (map snd (optimal_data_chunks bs m)) = bs"
proof -
  let ?whole = "length bs \<le> m"
  let ?g = "\<lambda>(is_number, chunk).
           if is_number then [(MODE_NUMBER, chunk)]
           else map (\<lambda>(is_alpha, sub_chunk).
                  (if is_alpha then MODE_ALPHA_NUM else MODE_8BIT_BYTE, sub_chunk))
                  (optimal_split is_alpha_num m ?whole chunk)"
  have g: "concat (map snd (?g p)) = snd p" for p
  proof (cases p)
    case (Pair is_number chunk)
    have sc: "(snd \<circ> (\<lambda>(is_alpha, sub_chunk).
                  (if is_alpha then MODE_ALPHA_NUM else MODE_8BIT_BYTE, sub_chunk))) = snd"
      by (auto simp: fun_eq_iff)
    show ?thesis
      by (simp add: Pair sc concat_optimal_split)
  qed
  have "concat (map snd (concat (map ?g (optimal_split is_digit m ?whole bs))))
          = concat (map snd (optimal_split is_digit m ?whole bs))"
    by (rule concat_map_snd_concat) (rule g)
  then show ?thesis
    by (simp add: optimal_data_chunks_def concat_optimal_split Let_def)
qed

lemma chunk_bits_bound: "10 * n + 51 \<le> 3 * (4 + MODE_SIZE_LARGE m + data_bits m n)"
proof (cases m)
  case MODE_NUMBER
  define q where "q = n div 3"
  define r where "r = n mod 3"
  have n: "n = 3 * q + r"
    by (simp add: q_def r_def)
  have "r < 3"
    by (simp add: r_def)
  then have r: "r = 0 \<or> r = 1 \<or> r = 2"
    by linarith
  have db: "data_bits MODE_NUMBER n = 10 * q + (if r = 0 then 0 else if r = 1 then 4 else 7)"
    by (simp add: q_def r_def)
  have "10 * n + 51 \<le> 3 * (4 + 14 + (10 * q + (if r = 0 then 0 else if r = 1 then 4 else 7)))"
    using r n by auto
  then show ?thesis
    by (simp only: MODE_NUMBER db MODE_SIZE_LARGE.simps)
next
  case MODE_ALPHA_NUM
  define q where "q = n div 2"
  define r where "r = n mod 2"
  have n: "n = 2 * q + r"
    by (simp add: q_def r_def)
  have "r < 2"
    by (simp add: r_def)
  then have r: "r = 0 \<or> r = 1"
    by linarith
  have db: "data_bits MODE_ALPHA_NUM n = 11 * q + 6 * r"
    by (simp add: q_def r_def)
  have "10 * n + 51 \<le> 3 * (4 + 13 + (11 * q + 6 * r))"
    using r n by auto
  then show ?thesis
    by (simp only: MODE_ALPHA_NUM db MODE_SIZE_LARGE.simps)
next
  case MODE_8BIT_BYTE
  then show ?thesis by simp
qed

lemma needed_bits_bound:
  "10 * length (concat (map snd chunks)) + 51 * length chunks \<le> 3 * needed_bits chunks"
proof (induction chunks)
  case Nil
  show ?case by (simp add: needed_bits_def)
next
  case (Cons c chunks)
  obtain m bs where c: "c = (m, bs)" by (cases c)
  from Cons chunk_bits_bound [of "length bs" m] show ?case
    by (simp add: needed_bits_def c)
qed

lemma long_data_overflows:
  assumes "7089 < length bs"
  shows "23648 < needed_bits (optimal_data_chunks bs 20)"
proof -
  have "optimal_data_chunks bs 20 \<noteq> []"
    using concat_optimal_data_chunks [of bs 20] assms by auto
  then have "1 \<le> length (optimal_data_chunks bs 20)"
    by (cases "optimal_data_chunks bs 20") simp_all
  with needed_bits_bound [of "optimal_data_chunks bs 20"] assms show ?thesis
    by (simp add: concat_optimal_data_chunks)
qed

lemma BIT_LIMIT_40_le: "BIT_LIMIT_40 l \<le> 23648"
  by (cases l) simp_all

text \<open>Data without a digit or a character of the alphanumeric set is one segment of bytes.\<close>

lemma optimal_split_runs_none:
  "\<forall>x \<in> set bs. \<not> P x \<Longrightarrow>
   optimal_split_runs P m pending bs = (if pending @ bs = [] then [] else [(False, pending @ bs)])"
  by (induction bs arbitrary: pending) simp_all

lemma optimal_split_none:
  assumes "bs \<noteq> []" and "\<forall>x \<in> set bs. \<not> P x"
  shows "optimal_split P m whole bs = [(False, bs)]"
proof (cases whole)
  case True
  from assms have "takeWhile P bs = []"
    by (cases bs) simp_all
  with assms True show ?thesis
    by (simp add: optimal_split_def optimal_split_whole_def)
next
  case False
  with assms optimal_split_runs_none [of bs P m "[]"] show ?thesis
    by (simp add: optimal_split_def)
qed

lemma byte_chunks:
  assumes "bs \<noteq> []" and "\<forall>x \<in> set bs. \<not> is_alpha_num x"
  shows "optimal_data_chunks bs m = [(MODE_8BIT_BYTE, bs)]"
proof -
  from assms(2) have nd: "\<forall>x \<in> set bs. \<not> is_digit x"
    by (simp add: is_alpha_num_def)
  show ?thesis
    by (simp add: optimal_data_chunks_def Let_def optimal_split_none [OF assms(1) nd]
        optimal_split_none [OF assms])
qed

lemma byte_bits:
  assumes "bs \<noteq> []" and "\<forall>x \<in> set bs. \<not> is_alpha_num x"
  shows "needed_bits (optimal_data_chunks bs m) = 20 + 8 * length bs"
  by (simp add: byte_chunks [OF assms] needed_bits_def)

lemma to_bytestring_a: "to_bytestring (replicate n CHR ''a'') = replicate n 97"
  by (induction n) (simp_all add: to_bytestring_def)

lemma bits_of_a:
  "0 < n \<Longrightarrow> needed_bits (optimal_data_chunks (to_bytestring (replicate n CHR ''a'')) 20) = 20 + 8 * n"
  using byte_bits [of "replicate n 97" 20]
  by (simp add: to_bytestring_a is_alpha_num_def is_digit_def)

text \<open>The segments of some strings, and the UTF-8 bytes of a character above ASCII.\<close>

lemma segments_examples:
  "optimal_data_chunks (to_bytestring ''12345'') 20 = [(MODE_NUMBER, [49, 50, 51, 52, 53])]"
  "optimal_data_chunks (to_bytestring ''HELLO WORLD'') 20
     = [(MODE_ALPHA_NUM, [72, 69, 76, 76, 79, 32, 87, 79, 82, 76, 68])]"
  "optimal_data_chunks (to_bytestring ''hello'') 20 = [(MODE_8BIT_BYTE, [104, 101, 108, 108, 111])]"
  "optimal_data_chunks (to_bytestring [CHR ''1'', CHR ''2'', CHR 0x0A]) 20
     = [(MODE_NUMBER, [49, 50]), (MODE_8BIT_BYTE, [10])]"
  "optimal_data_chunks (to_bytestring ''id 12345678901234567890123 OK'') 20
     = [(MODE_8BIT_BYTE, [105, 100, 32]),
        (MODE_NUMBER, [49, 50, 51, 52, 53, 54, 55, 56, 57, 48, 49, 50, 51, 52, 53, 54, 55, 56, 57,
                       48, 49, 50, 51]),
        (MODE_8BIT_BYTE, [32, 79, 75])]"
  "optimal_data_chunks (to_bytestring []) 20 = []"
  "to_bytestring [CHR 0xE9] = [195, 169]"
  by code_simp+

lemma needed_bits_examples:
  "needed_bits [(MODE_ALPHA_NUM, [72, 69, 76, 76, 79, 32, 87, 79, 82, 76, 68])] = 78"
  "needed_bits [(MODE_NUMBER, [49, 50, 51, 52, 53])] = 35"
  "needed_bits [] = 0"
  by (simp_all add: needed_bits_def)

lemma optimal_split_all:
  assumes "bs \<noteq> []" and "\<forall>x \<in> set bs. P x" and "whole \<or> m \<le> length bs"
  shows "optimal_split P m whole bs = [(True, bs)]"
proof -
  from assms(2) have tw: "takeWhile P bs = bs" and dw: "dropWhile P bs = []"
    by simp_all
  show ?thesis
  proof (cases whole)
    case True
    with assms(1) show ?thesis
      by (simp add: optimal_split_def optimal_split_whole_def Let_def tw dw)
  next
    case False
    with assms(3) have m: "m \<le> length bs"
      by simp
    from assms(1) obtain x xs where bs: "bs = x # xs"
      by (cases bs) auto
    with assms(2) have px: "P x"
      by simp
    from assms(2) have txs: "takeWhile P xs = xs" and dxs: "dropWhile P xs = []"
      by (simp_all add: bs)
    from m px False show ?thesis
      unfolding bs by (simp add: optimal_split_def Let_def txs dxs)
  qed
qed


lemma digit_chunks:
  assumes "bs \<noteq> []" and "\<forall>x \<in> set bs. is_digit x"
  shows "optimal_data_chunks bs m = [(MODE_NUMBER, bs)]"
proof -
  have "length bs \<le> m \<or> m \<le> length bs"
    by linarith
  from optimal_split_all [OF assms this] show ?thesis
    by (simp add: optimal_data_chunks_def Let_def)
qed

lemma alpha_chunks:
  assumes "bs \<noteq> []" and "\<forall>x \<in> set bs. is_alpha_num x \<and> \<not> is_digit x"
  shows "optimal_data_chunks bs m = [(MODE_ALPHA_NUM, bs)]"
proof -
  have c: "length bs \<le> m \<or> m \<le> length bs"
    by linarith
  from assms(2) have nd: "\<forall>x \<in> set bs. \<not> is_digit x" and al: "\<forall>x \<in> set bs. is_alpha_num x"
    by simp_all
  show ?thesis
    by (simp add: optimal_data_chunks_def Let_def optimal_split_none [OF assms(1) nd]
        optimal_split_all [OF assms(1) al c])
qed

lemma to_bytestring_replicate:
  "(of_char ch :: nat) < 128 \<Longrightarrow> to_bytestring (replicate n ch) = replicate n (of_char ch)"
  by (induction n) (simp_all add: to_bytestring_def)

text \<open>
  The fit meets the capacities of version 40 at level L as the standard gives them: 7089
  digits, 4296 alphanumeric characters, 2953 bytes.
\<close>

lemma capacity_at_L:
  "qrcode_make \<lparr>version = 1, error_correction = ERROR_CORRECT_L, box_size = 10, border = 4,
     qr_data = replicate 7089 CHR ''1''\<rparr> = None"
  "qrcode_make \<lparr>version = 1, error_correction = ERROR_CORRECT_L, box_size = 10, border = 4,
     qr_data = replicate 7090 CHR ''1''\<rparr>
     = Some (Exn ValueError ''Invalid version (was 41, expected 1 to 40)'')"
  "qrcode_make \<lparr>version = 1, error_correction = ERROR_CORRECT_L, box_size = 10, border = 4,
     qr_data = replicate 4296 CHR ''A''\<rparr> = None"
  "qrcode_make \<lparr>version = 1, error_correction = ERROR_CORRECT_L, box_size = 10, border = 4,
     qr_data = replicate 4297 CHR ''A''\<rparr>
     = Some (Exn ValueError ''Invalid version (was 41, expected 1 to 40)'')"
  "qrcode_make \<lparr>version = 1, error_correction = ERROR_CORRECT_L, box_size = 10, border = 4,
     qr_data = replicate 2953 CHR ''a''\<rparr> = None"
  "qrcode_make \<lparr>version = 1, error_correction = ERROR_CORRECT_L, box_size = 10, border = 4,
     qr_data = replicate 2954 CHR ''a''\<rparr>
     = Some (Exn ValueError ''Invalid version (was 41, expected 1 to 40)'')"
proof -
  have d: "optimal_data_chunks (replicate n 49) 20 = [(MODE_NUMBER, replicate n 49)]" if "0 < n" for n
    using that digit_chunks [of "replicate n 49" 20] by (simp add: is_digit_def)
  have a: "optimal_data_chunks (replicate n 65) 20 = [(MODE_ALPHA_NUM, replicate n 65)]" if "0 < n" for n
    using that alpha_chunks [of "replicate n 65" 20] by (simp add: is_digit_def is_alpha_num_def)
  have b: "optimal_data_chunks (replicate n 97) 20 = [(MODE_8BIT_BYTE, replicate n 97)]" if "0 < n" for n
    using that byte_chunks [of "replicate n 97" 20] by (simp add: is_digit_def is_alpha_num_def)
  show "qrcode_make \<lparr>version = 1, error_correction = ERROR_CORRECT_L, box_size = 10, border = 4,
     qr_data = replicate 7089 CHR ''1''\<rparr> = None"
    by (simp add: qrcode_make_def to_bytestring_replicate d needed_bits_def)
  show "qrcode_make \<lparr>version = 1, error_correction = ERROR_CORRECT_L, box_size = 10, border = 4,
     qr_data = replicate 7090 CHR ''1''\<rparr>
     = Some (Exn ValueError ''Invalid version (was 41, expected 1 to 40)'')"
    by (simp add: qrcode_make_def to_bytestring_replicate d needed_bits_def)
  show "qrcode_make \<lparr>version = 1, error_correction = ERROR_CORRECT_L, box_size = 10, border = 4,
     qr_data = replicate 4296 CHR ''A''\<rparr> = None"
    by (simp add: qrcode_make_def to_bytestring_replicate a needed_bits_def)
  show "qrcode_make \<lparr>version = 1, error_correction = ERROR_CORRECT_L, box_size = 10, border = 4,
     qr_data = replicate 4297 CHR ''A''\<rparr>
     = Some (Exn ValueError ''Invalid version (was 41, expected 1 to 40)'')"
    by (simp add: qrcode_make_def to_bytestring_replicate a needed_bits_def)
  show "qrcode_make \<lparr>version = 1, error_correction = ERROR_CORRECT_L, box_size = 10, border = 4,
     qr_data = replicate 2953 CHR ''a''\<rparr> = None"
    by (simp add: qrcode_make_def to_bytestring_replicate b needed_bits_def)
  show "qrcode_make \<lparr>version = 1, error_correction = ERROR_CORRECT_L, box_size = 10, border = 4,
     qr_data = replicate 2954 CHR ''a''\<rparr>
     = Some (Exn ValueError ''Invalid version (was 41, expected 1 to 40)'')"
    by (simp add: qrcode_make_def to_bytestring_replicate b needed_bits_def)
qed

lemma level_M:
  "(case error_correction_levels ''M'' of Some l \<Rightarrow> l | None \<Rightarrow> ERROR_CORRECT_M) = ERROR_CORRECT_M"
  by (simp add: error_correction_levels_def)

lemma qrcode_make_overflow:
  assumes "BIT_LIMIT_40 (error_correction q)
             < needed_bits (optimal_data_chunks (to_bytestring (qr_data q)) 20)"
  shows "\<exists>e. exn_class_of e = ValueError \<and> qrcode_make q = Some e"
  using assms by (simp add: qrcode_make_def)

lemma generate_qr_sync_raises:
  assumes "qr_make lib \<lparr>version = 1,
        error_correction =
          (case error_correction_levels ec of Some l \<Rightarrow> l | None \<Rightarrow> ERROR_CORRECT_M),
        box_size = s, border = b, qr_data = d\<rparr> = Some e"
  shows "generate_qr_code lib i now c d f s b ec fc bc st = (Inl e, c)"
  using assms by (simp add: generate_qr_code_def generate_qr_sync_def)

lemma byte_mode_capacity:
  assumes "0 < n"
  shows "BIT_LIMIT_40 l < needed_bits (optimal_data_chunks (to_bytestring (replicate n CHR ''a'')) 20)
           \<longleftrightarrow> byte_capacity l < n"
  by (cases l) (auto simp: bits_of_a [OF assms])

text \<open>
  C4, as the code has it. With the fit of the qrcode library, \<open>generate_qr_code\<close> fails
  for every data string whose payload, the bits of the segments of its UTF-8 bytes,
  exceeds the bit capacity of version 40 at the level asked for; so it does for every
  string of more than 7089 characters, at every level. The exception is the library's
  \<^verbatim>\<open>ValueError\<close>, and the cache is left as it was. Nothing is truncated: whenever bytes
  are returned, they are the saved image of the symbol built from the whole string.
\<close>

theorem over_capacity_generation_fails:
  "(BIT_LIMIT_40 (case error_correction_levels ec of Some l \<Rightarrow> l | None \<Rightarrow> ERROR_CORRECT_M)
        < needed_bits (optimal_data_chunks (to_bytestring d) 20) \<longrightarrow>
      (\<exists>e. exn_class_of e = ValueError
         \<and> generate_qr_code (lib\<lparr>qr_make := qrcode_make\<rparr>) i now c d f s b ec fc bc st = (Inl e, c)))
   \<and> (7089 < length d \<longrightarrow>
      (\<exists>e. exn_class_of e = ValueError
         \<and> generate_qr_code (lib\<lparr>qr_make := qrcode_make\<rparr>) i now c d f s b ec fc bc st = (Inl e, c)))
   \<and> (generate_qr_sync lib d f s b ec fc bc st = Inr bs \<longrightarrow>
      (\<exists>img fmt optimize.
         img_save lib img fmt optimize = Inr bs \<and> qr_data (image_qr img) = d
         \<and> qr_make lib (image_qr img) = None))"
proof (intro conjI impI)
  let ?l = "case error_correction_levels ec of Some l \<Rightarrow> l | None \<Rightarrow> ERROR_CORRECT_M"
  let ?qr = "\<lparr>version = 1, error_correction = ?l, box_size = s, border = b, qr_data = d\<rparr>"
  let ?lib = "lib\<lparr>qr_make := qrcode_make\<rparr>"
  have fails: "\<exists>e. exn_class_of e = ValueError
         \<and> generate_qr_code ?lib i now c d f s b ec fc bc st = (Inl e, c)"
    if over: "BIT_LIMIT_40 ?l < needed_bits (optimal_data_chunks (to_bytestring d) 20)"
  proof -
    from over obtain e where e: "exn_class_of e = ValueError" and m: "qrcode_make ?qr = Some e"
      using qrcode_make_overflow [of ?qr] by auto
    from m have "qr_make ?lib ?qr = Some e"
      by simp
    from generate_qr_sync_raises [OF this] e show ?thesis
      by blast
  qed
  {
    assume "BIT_LIMIT_40 ?l < needed_bits (optimal_data_chunks (to_bytestring d) 20)"
    then show "\<exists>e. exn_class_of e = ValueError
         \<and> generate_qr_code ?lib i now c d f s b ec fc bc st = (Inl e, c)"
      by (rule fails)
  next
    assume "7089 < length d"
    with length_to_bytestring [of d] have "7089 < length (to_bytestring d)"
      by linarith
    from long_data_overflows [OF this] BIT_LIMIT_40_le [of ?l]
    have "BIT_LIMIT_40 ?l < needed_bits (optimal_data_chunks (to_bytestring d) 20)"
      by linarith
    then show "\<exists>e. exn_class_of e = ValueError
         \<and> generate_qr_code ?lib i now c d f s b ec fc bc st = (Inl e, c)"
      by (rule fails)
  next
    assume r: "generate_qr_sync lib d f s b ec fc bc st = Inr bs"
    then have mk: "qr_make lib ?qr = None"
      by (cases "qr_make lib ?qr") (simp_all add: generate_qr_sync_def)
    with r have "generate_svg lib ?qr fc bc = Inr bs \<or> generate_pdf lib ?qr fc bc = Inr bs
        \<or> generate_png lib ?qr fc bc st = Inr bs"
      by (simp add: generate_qr_sync_def Let_def split: if_splits)
    then obtain img fmt optimize where sv: "img_save lib img fmt optimize = Inr bs"
      and iq: "image_qr img = ?qr"
      by (auto simp: generate_svg_def generate_pdf_def generate_png_def Let_def split: if_splits)
    have "qr_data (image_qr img) = d"
      by (simp add: iq)
    moreover have "qr_make lib (image_qr img) = None"
      by (simp only: iq mk)
    ultimately show "\<exists>img fmt optimize.
           img_save lib img fmt optimize = Inr bs \<and> qr_data (image_qr img) = d
           \<and> qr_make lib (image_qr img) = None"
      using sv by blast
  }
qed

lemma sample_qrlib_make: "sample_qrlib\<lparr>qr_make := qrcode_make\<rparr> = sample_qrlib"
  by (simp add: sample_qrlib_def)

lemma sample_overflow_2332:
  "generate_qr_code sample_qrlib ''id-1'' 1000 [] (replicate 2332 CHR ''a'') ''PNG'' 10 4 ''M''
       ''black'' ''white'' None
     = (Inl (Exn ValueError ''Invalid version (was 41, expected 1 to 40)''), [])"
  by (simp add: generate_qr_code_def generate_qr_sync_def sample_qrlib_def qrcode_make_def level_M
      bits_of_a)

lemma sample_fits_2331:
  "qrcode_make \<lparr>version = 1, error_correction = ERROR_CORRECT_M, box_size = 10, border = 4,
     qr_data = replicate 2331 CHR ''a''\<rparr> = None"
  by (simp add: qrcode_make_def bits_of_a)

lemma sample_overflow_digits:
  "generate_qr_code sample_qrlib ''id-1'' 1000 [] (replicate 7090 CHR ''1'') ''PNG'' 10 4 ''L''
       ''black'' ''white'' None
     = (Inl (Exn ValueError ''Invalid version (was 41, expected 1 to 40)''), [])"
proof -
  have "7089 < length (to_bytestring (replicate 7090 CHR ''1''))"
    using length_to_bytestring [of "replicate 7090 CHR ''1''"] by simp
  from long_data_overflows [OF this] show ?thesis
    by (simp add: generate_qr_code_def generate_qr_sync_def sample_qrlib_def qrcode_make_def
        error_correction_levels_def)
qed

theorem over_capacity_generation_fails_witness:
  "BIT_LIMIT_40 ERROR_CORRECT_M
     < needed_bits (optimal_data_chunks (to_bytestring (replicate 2332 CHR ''a'')) 20)
   \<and> generate_qr_code sample_qrlib ''id-1'' 1000 [] (replicate 2332 CHR ''a'') ''PNG'' 10 4 ''M''
         ''black'' ''white'' None
       = (Inl (Exn ValueError ''Invalid version (was 41, expected 1 to 40)''), [])
   \<and> 7089 < length (replicate 7090 CHR ''1'')
   \<and> generate_qr_code sample_qrlib ''id-1'' 1000 [] (replicate 7090 CHR ''1'') ''PNG'' 10 4 ''L''
         ''black'' ''white'' None
       = (Inl (Exn ValueError ''Invalid version (was 41, expected 1 to 40)''), [])
   \<and> generate_qr_sync sample_qrlib ''a'' ''PNG'' 10 4 ''M'' ''black'' ''white'' None
       = Inr [137, 80, 78, 71, 97]
   \<and> (\<exists>img fmt optimize.
         img_save sample_qrlib img fmt optimize = Inr [137, 80, 78, 71, 97]
         \<and> qr_data (image_qr img) = ''a'' \<and> qr_make sample_qrlib (image_qr img) = None)"
proof -
  note T = over_capacity_generation_fails
  have h1: "BIT_LIMIT_40 ERROR_CORRECT_M
     < needed_bits (optimal_data_chunks (to_bytestring (replicate 2332 CHR ''a'')) 20)"
    by (simp add: bits_of_a)
  then have h1': "BIT_LIMIT_40 (case error_correction_levels ''M'' of Some l \<Rightarrow> l
        | None \<Rightarrow> ERROR_CORRECT_M)
     < needed_bits (optimal_data_chunks (to_bytestring (replicate 2332 CHR ''a'')) 20)"
    by (simp only: level_M)
  from T [where lib = sample_qrlib and ec = "''M''" and d = "replicate 2332 CHR ''a''"
      and i = "''id-1''" and now = 1000 and c = "[]" and f = "''PNG''" and s = 10 and b = 4
      and fc = "''black''" and bc = "''white''" and st = None] h1'
  obtain e where "generate_qr_code sample_qrlib ''id-1'' 1000 [] (replicate 2332 CHR ''a'') ''PNG'' 10
      4 ''M'' ''black'' ''white'' None = (Inl e, [])"
    unfolding sample_qrlib_make by blast
  with sample_overflow_2332 have 1: "generate_qr_code sample_qrlib ''id-1'' 1000 []
      (replicate 2332 CHR ''a'') ''PNG'' 10 4 ''M'' ''black'' ''white'' None
       = (Inl (Exn ValueError ''Invalid version (was 41, expected 1 to 40)''), [])"
    by simp
  have h2: "7089 < length (replicate 7090 CHR ''1'')"
    by simp
  from T [where lib = sample_qrlib and ec = "''L''" and d = "replicate 7090 CHR ''1''"
      and i = "''id-1''" and now = 1000 and c = "[]" and f = "''PNG''" and s = 10 and b = 4
      and fc = "''black''" and bc = "''white''" and st = None] h2
  obtain e' where "generate_qr_code sample_qrlib ''id-1'' 1000 [] (replicate 7090 CHR ''1'') ''PNG'' 10
      4 ''L'' ''black'' ''white'' None = (Inl e', [])"
    unfolding sample_qrlib_make by blast
  with sample_overflow_digits have 2: "generate_qr_code sample_qrlib ''id-1'' 1000 []
      (replicate 7090 CHR ''1'') ''PNG'' 10 4 ''L'' ''black'' ''white'' None
       = (Inl (Exn ValueError ''Invalid version (was 41, expected 1 to 40)''), [])"
    by simp
  from T [where lib = sample_qrlib and ec = "''M''" and d = "''a''" and f = "''PNG''" and s = 10
      and b = 4 and fc = "''black''" and bc = "''white''" and st = None
      and bs = "[137, 80, 78, 71, 97]"] sample_sync_png
  have 3: "\<exists>img fmt optimize.
         img_save sample_qrlib img fmt optimize = Inr [137, 80, 78, 71, 97]
         \<and> qr_data (image_qr img) = ''a'' \<and> qr_make sample_qrlib (image_qr img) = None"
    by blast
  from h1 1 h2 2 sample_sync_png 3 show ?thesis
    by (intro conjI)
qed

text \<open>The request model of the single-item endpoint is where empty data is rejected.\<close>

lemma empty_data_fails_validation: "req_data r = [] \<Longrightarrow> \<not> QRCodeRequest_valid r"
  by (simp add: QRCodeRequest_valid_def)

lemma sample_sync_empty:
  "generate_qr_sync sample_qrlib [] ''PNG'' 10 4 ''M'' ''black'' ''white'' None
     = Inr [137, 80, 78, 71]"
  by code_simp

text \<open>
  The claim C4 as it is written fails for the empty string: the generator hands it to
  the library like any other string, the library builds a symbol without data, and the
  call returns and caches an artifact. (Only the single-item request model rejects
  empty data, as a validation error, before the generator is called.)
\<close>

theorem empty_data_is_encoded_counterexample:
  "generate_qr_code sample_qrlib ''id-1'' 1000 [] [] ''PNG'' 10 4 ''M'' ''black'' ''white'' None =
     (Inr \<lparr>qr_id = ''id-1'', data = [], format = ''PNG'', qr_size = 10,
            file_data = [0x89, 0x50, 0x4E, 0x47], base64_data = ''iVBORw=='',
            created_at = 1000, file_size = 4\<rparr>,
      [(''id-1'', \<lparr>qr_id = ''id-1'', data = [], format = ''PNG'', qr_size = 10,
            file_data = [0x89, 0x50, 0x4E, 0x47], base64_data = ''iVBORw=='',
            created_at = 1000, file_size = 4\<rparr>)])"
  by (simp add: generate_qr_code_def sample_sync_empty Let_def b64_char_def b64_alphabet_def)

end
